theory Spec2Isabelle
  imports Complex_Main "HOL-Library.Sublist"
begin

section \<open>Values and float arithmetic\<close>

text \<open>
  The module \<^verbatim>\<open>deal_finder/tools.py\<close> holds a retry decorator and two calculators
  that return Python dictionaries.

  Numbers: the calculators work on Python floats, and the results of float
  operations (their binary rounding, their overflow to infinity, the exceptions of
  \<^verbatim>\<open>**\<close>) are fixed by the language and the platform, not by this repository. The
  model therefore takes the float type \<open>'f\<close> and its operations as a parameter, the
  record \<open>arith\<close>, and follows the source operation by operation. What a theorem
  needs to know about the operations it states as a hypothesis. The loan term is a
  Python \<^verbatim>\<open>int\<close> and is an \<^typ>\<open>int\<close> here; the other inputs are floats, as the
  signatures annotate them.

  Dictionaries: a result is a \<^verbatim>\<open>dict\<close> literal. It is an association list in the
  order of the literal, so that the set of keys a branch returns is part of the model.
\<close>

datatype 'f py_value =
    PyFloat 'f
  | PyInt int
  | PyStr string
  | PyDict "(string \<times> 'f py_value) list"

type_synonym 'f py_dict = "(string \<times> 'f py_value) list"

text \<open>
  An exception is known to the decorator through \<^verbatim>\<open>str(e)\<close> and through its class:
  \<open>exc_is_exception\<close> says whether it is an instance of \<^verbatim>\<open>Exception\<close>, which the
  handler \<^verbatim>\<open>except Exception\<close> catches, or only of \<^verbatim>\<open>BaseException\<close>
  (\<^verbatim>\<open>SystemExit\<close>, \<^verbatim>\<open>KeyboardInterrupt\<close>), which it lets through.
\<close>

datatype py_exception =
  PyException (exc_type: string) (exc_is_exception: bool) (exc_str: string)

definition ZeroDivisionError :: py_exception where
  "ZeroDivisionError = PyException ''ZeroDivisionError'' True ''float division by zero''"

definition OverflowError_range :: py_exception where
  "OverflowError_range =
     PyException ''OverflowError'' True ''(34, 'Numerical result out of range')''"

definition OverflowError_int :: py_exception where
  "OverflowError_int =
     PyException ''OverflowError'' True ''int too large to convert to float''"

text \<open>
  The float operations the module uses.
  \<^item> \<open>f_lit k\<close> is the float of the integer literal \<open>k\<close> (\<open>0\<close>, \<open>1\<close>, \<open>12\<close>, \<open>100\<close>):
    where a literal meets a float, Python computes with its conversion.
  \<^item> \<open>f_conv n\<close> converts the value of an \<^verbatim>\<open>int\<close> variable for a mixed operation;
    \<open>None\<close> is the \<^verbatim>\<open>OverflowError\<close> of an int too large for a float.
  \<^item> \<open>f_add\<close>, \<open>f_sub\<close>, \<open>f_mul\<close> never raise (they overflow to infinity), and
    \<open>f_div\<close> is the quotient by a divisor that is not zero.
  \<^item> \<open>f_pow x n\<close> is \<^verbatim>\<open>x ** n\<close> for a float and a positive int: a value, or one of
    the two overflow errors.
  \<^item> \<open>f_round x ndigits\<close> is \<^verbatim>\<open>round(x, ndigits)\<close>, which never raises on a float.
  \<^item> \<open>f_eq\<close>, \<open>f_lt\<close>, \<open>f_le\<close> are \<^verbatim>\<open>==\<close>, \<^verbatim>\<open><\<close> and \<^verbatim>\<open><=\<close>.
\<close>

datatype 'f pow_outcome = Pow_value 'f | Pow_out_of_range | Pow_int_too_large

record 'f arith =
  f_lit :: "int \<Rightarrow> 'f"
  f_conv :: "int \<Rightarrow> 'f option"
  f_add :: "'f \<Rightarrow> 'f \<Rightarrow> 'f"
  f_sub :: "'f \<Rightarrow> 'f \<Rightarrow> 'f"
  f_mul :: "'f \<Rightarrow> 'f \<Rightarrow> 'f"
  f_div :: "'f \<Rightarrow> 'f \<Rightarrow> 'f"
  f_pow :: "'f \<Rightarrow> int \<Rightarrow> 'f pow_outcome"
  f_round :: "'f \<Rightarrow> nat \<Rightarrow> 'f"
  f_eq :: "'f \<Rightarrow> 'f \<Rightarrow> bool"
  f_lt :: "'f \<Rightarrow> 'f \<Rightarrow> bool"
  f_le :: "'f \<Rightarrow> 'f \<Rightarrow> bool"

text \<open>Sequencing of computations that may raise: the first exception ends the body.\<close>

definition py_bind :: "py_exception + 'a \<Rightarrow> ('a \<Rightarrow> py_exception + 'b) \<Rightarrow> py_exception + 'b" where
  "py_bind m f = (case m of Inl e \<Rightarrow> Inl e | Inr x \<Rightarrow> f x)"

text \<open>The operator \<^verbatim>\<open>/\<close> on floats raises when the divisor equals zero.\<close>

definition py_div :: "'f arith \<Rightarrow> 'f \<Rightarrow> 'f \<Rightarrow> py_exception + 'f" where
  "py_div A a b = (if f_eq A b (f_lit A 0) then Inl ZeroDivisionError else Inr (f_div A a b))"

definition py_pow :: "'f arith \<Rightarrow> 'f \<Rightarrow> int \<Rightarrow> py_exception + 'f" where
  "py_pow A x n =
     (case f_pow A x n of
        Pow_value y \<Rightarrow> Inr y
      | Pow_out_of_range \<Rightarrow> Inl OverflowError_range
      | Pow_int_too_large \<Rightarrow> Inl OverflowError_int)"

text \<open>A float times the value of an \<^verbatim>\<open>int\<close> variable: the int is converted first.\<close>

definition py_mul_int :: "'f arith \<Rightarrow> 'f \<Rightarrow> int \<Rightarrow> py_exception + 'f" where
  "py_mul_int A x n =
     (case f_conv A n of
        None \<Rightarrow> Inl OverflowError_int
      | Some y \<Rightarrow> Inr (f_mul A x y))"

section \<open>The mortgage calculator\<close>

text \<open>
  The body of \<^verbatim>\<open>calculate_mortgage\<close> (tools.py, lines 92 to 136), before the decorator
  is applied. Each \<^verbatim>\<open>return\<close> is an \<open>Inr\<close>; a raised exception is an \<open>Inl\<close>. The
  amortization formula evaluates \<^verbatim>\<open>(1 + monthly_rate) ** num_payments\<close> in its
  numerator and again in its denominator, then divides.
\<close>

definition calculate_mortgage_body ::
  "'f arith \<Rightarrow> 'f \<Rightarrow> 'f \<Rightarrow> 'f \<Rightarrow> int \<Rightarrow> py_exception + 'f py_dict" where
  "calculate_mortgage_body A price down_payment_pct interest_rate term_years =
     (if f_le A price (f_lit A 0) then
        Inr [(''error'', PyStr ''Price must be positive.'')]
      else if \<not> (f_le A (f_lit A 0) down_payment_pct \<and> f_le A down_payment_pct (f_lit A 100)) then
        Inr [(''error'', PyStr ''Down payment percentage must be between 0 and 100.'')]
      else if f_le A interest_rate (f_lit A 0) then
        Inr [(''error'', PyStr ''Interest rate must be positive.'')]
      else if term_years \<le> 0 then
        Inr [(''error'', PyStr ''Loan term must be positive.'')]
      else
        let down_payment = f_mul A price (f_div A down_payment_pct (f_lit A 100));
            loan_amount = f_sub A price down_payment;
            monthly_rate = f_div A (f_div A interest_rate (f_lit A 100)) (f_lit A 12);
            num_payments = term_years * 12
        in if f_eq A loan_amount (f_lit A 0) then
             Inr [(''price'', PyFloat (f_round A price 2)),
                  (''down_payment_pct'', PyFloat down_payment_pct),
                  (''down_payment_amount'', PyFloat (f_round A down_payment 2)),
                  (''loan_amount'', PyFloat (f_lit A 0)),
                  (''monthly_payment'', PyFloat (f_lit A 0)),
                  (''total_interest'', PyFloat (f_lit A 0)),
                  (''total_cost'', PyFloat (f_round A price 2))]
           else
             py_bind (py_pow A (f_add A (f_lit A 1) monthly_rate) num_payments)
               (\<lambda>growth.
             py_bind (py_pow A (f_add A (f_lit A 1) monthly_rate) num_payments)
               (\<lambda>growth'.
             py_bind (py_div A (f_mul A monthly_rate growth) (f_sub A growth' (f_lit A 1)))
               (\<lambda>factor.
             let monthly_payment = f_mul A loan_amount factor
             in
             py_bind (py_mul_int A monthly_payment num_payments)
               (\<lambda>total_paid.
             let total_interest = f_sub A total_paid loan_amount
             in Inr [(''price'', PyFloat (f_round A price 2)),
                     (''down_payment_pct'', PyFloat down_payment_pct),
                     (''down_payment_amount'', PyFloat (f_round A down_payment 2)),
                     (''loan_amount'', PyFloat (f_round A loan_amount 2)),
                     (''interest_rate'', PyFloat interest_rate),
                     (''term_years'', PyInt term_years),
                     (''monthly_payment'', PyFloat (f_round A monthly_payment 2)),
                     (''total_interest'', PyFloat (f_round A total_interest 2)),
                     (''total_cost'',
                        PyFloat (f_round A (f_add A down_payment total_paid) 2))])))))"

section \<open>The cash-flow analyzer\<close>

text \<open>
  The body of \<^verbatim>\<open>calculate_cashflow\<close> (tools.py, lines 165 to 216). The three
  conditional expressions divide only under their guard \<^verbatim>\<open>> 0\<close>; the division itself is
  the raising \<open>py_div\<close>.
\<close>

definition calculate_cashflow_body ::
  "'f arith \<Rightarrow> 'f \<Rightarrow> 'f \<Rightarrow> 'f \<Rightarrow> 'f \<Rightarrow> 'f \<Rightarrow> 'f \<Rightarrow> 'f \<Rightarrow> 'f \<Rightarrow> py_exception + 'f py_dict" where
  "calculate_cashflow_body A monthly_rent mortgage_payment monthly_taxes monthly_insurance
       vacancy_rate_pct maintenance_pct property_price total_cash_invested =
     (if f_lt A monthly_rent (f_lit A 0) \<or> f_lt A mortgage_payment (f_lit A 0) then
        Inr [(''error'', PyStr ''Rent and mortgage must be non-negative.'')]
      else
        let vacancy_reserve = f_mul A monthly_rent (f_div A vacancy_rate_pct (f_lit A 100));
            maintenance_reserve = f_mul A monthly_rent (f_div A maintenance_pct (f_lit A 100));
            total_monthly_expenses =
              f_add A (f_add A (f_add A (f_add A mortgage_payment monthly_taxes)
                monthly_insurance) vacancy_reserve) maintenance_reserve;
            monthly_cash_flow = f_sub A monthly_rent total_monthly_expenses;
            annual_cash_flow = f_mul A monthly_cash_flow (f_lit A 12);
            annual_noi =
              f_mul A
                (f_sub A (f_sub A (f_sub A (f_sub A monthly_rent vacancy_reserve)
                   maintenance_reserve) monthly_taxes) monthly_insurance)
                (f_lit A 12)
        in
          py_bind (if f_lt A (f_lit A 0) property_price
                   then py_bind (py_div A annual_noi property_price)
                          (\<lambda>q. Inr (f_mul A q (f_lit A 100)))
                   else Inr (f_lit A 0))
            (\<lambda>cap_rate.
          py_bind (if f_lt A (f_lit A 0) total_cash_invested
                   then py_bind (py_div A annual_cash_flow total_cash_invested)
                          (\<lambda>q. Inr (f_mul A q (f_lit A 100)))
                   else Inr (f_lit A 0))
            (\<lambda>cash_on_cash.
          py_bind (if f_lt A (f_lit A 0) property_price
                   then py_div A monthly_rent property_price
                   else Inr (f_lit A 0))
            (\<lambda>rent_to_price.
          Inr [(''monthly_rent'', PyFloat (f_round A monthly_rent 2)),
               (''expenses'', PyDict
                  [(''mortgage'', PyFloat (f_round A mortgage_payment 2)),
                   (''taxes'', PyFloat (f_round A monthly_taxes 2)),
                   (''insurance'', PyFloat (f_round A monthly_insurance 2)),
                   (''vacancy_reserve'', PyFloat (f_round A vacancy_reserve 2)),
                   (''maintenance_reserve'', PyFloat (f_round A maintenance_reserve 2)),
                   (''total_monthly'', PyFloat (f_round A total_monthly_expenses 2))]),
               (''monthly_cash_flow'', PyFloat (f_round A monthly_cash_flow 2)),
               (''annual_cash_flow'', PyFloat (f_round A annual_cash_flow 2)),
               (''annual_noi'', PyFloat (f_round A annual_noi 2)),
               (''cap_rate_pct'', PyFloat (f_round A cap_rate 2)),
               (''cash_on_cash_return_pct'', PyFloat (f_round A cash_on_cash 2)),
               (''rent_to_price_ratio'', PyFloat (f_round A rent_to_price 4))]))))"

section \<open>The retry decorator\<close>

text \<open>
  \<^verbatim>\<open>retry_on_rate_limit\<close> (tools.py, lines 30 to 71) wraps any callable. The callable may
  have effects and may fail on one call and succeed on the next, so it is a function
  of its arguments and of the state of the outside world, returning the value or the
  exception together with the new state. What the wrapper itself does to the world is
  recorded in a trace, in order: each call of the wrapped function, each
  \<^verbatim>\<open>time.sleep\<close> with its delay, and each log record.
\<close>

datatype 'f event =
    Call
  | Sleep 'f
  | LogWarning string int int 'f
  | LogError string int

record ('s, 'f) world =
  op_state :: 's
  trace :: "'f event list"

type_synonym ('args, 's, 'a) operation = "'args \<Rightarrow> 's \<Rightarrow> (py_exception + 'a) \<times> 's"

definition invoke ::
  "('args, 's, 'a) operation \<Rightarrow> 'args \<Rightarrow> ('s, 'f) world \<Rightarrow> (py_exception + 'a) \<times> ('s, 'f) world" where
  "invoke func args w =
     (case func args (op_state w) of
        (r, s') \<Rightarrow> (r, w\<lparr>op_state := s', trace := trace w @ [Call]\<rparr>))"

text \<open>
  \<^verbatim>\<open>time.sleep\<close> is a library function: it refuses a negative length and a length
  beyond the range of the platform's clock, and sleeps otherwise. The model takes
  it as the parameter \<open>time_sleep\<close>, which gives the exception raised for a length,
  or \<open>None\<close> when the call sleeps and returns.
\<close>

definition py_sleep ::
  "('f \<Rightarrow> py_exception option) \<Rightarrow> 'f \<Rightarrow> ('s, 'f) world \<Rightarrow> (py_exception + unit) \<times> ('s, 'f) world" where
  "py_sleep time_sleep secs w =
     (case time_sleep secs of
        Some e \<Rightarrow> (Inl e, w)
      | None \<Rightarrow> (Inr (), w\<lparr>trace := trace w @ [Sleep secs]\<rparr>))"

definition log_event :: "'f event \<Rightarrow> ('s, 'f) world \<Rightarrow> ('s, 'f) world" where
  "log_event ev w = w\<lparr>trace := trace w @ [ev]\<rparr>"

text \<open>
  \<^verbatim>\<open>str(e).lower()\<close>: strings are lists of characters, and lowering maps \<open>A\<close> to \<open>Z\<close>
  onto \<open>a\<close> to \<open>z\<close>. The operator \<^verbatim>\<open>in\<close> on strings is the contiguous-substring test
  \<^const>\<open>sublist\<close>.
\<close>

definition lower_char :: "char \<Rightarrow> char" where
  "lower_char c =
     (case map_of (zip ''ABCDEFGHIJKLMNOPQRSTUVWXYZ'' ''abcdefghijklmnopqrstuvwxyz'') c of
        None \<Rightarrow> c
      | Some l \<Rightarrow> l)"

definition py_lower :: "string \<Rightarrow> string" where
  "py_lower s = map lower_char s"

definition is_rate_limit :: "py_exception \<Rightarrow> bool" where
  "is_rate_limit e =
     (let error_str = py_lower (exc_str e)
      in sublist ''resource_exhausted'' error_str \<or> sublist ''rate limit'' error_str)"

text \<open>
  The \<^verbatim>\<open>for attempt in range(max_retries + 1)\<close> loop, as a recursion over the attempts
  still to run. An exception that is no instance of \<^verbatim>\<open>Exception\<close> is not caught by
  the handler and leaves the wrapper as it is. In the handler, the delay
  \<^verbatim>\<open>base_delay * (2 ** attempt)\<close> is a float times an int, and an exception raised
  there or by \<^verbatim>\<open>time.sleep\<close> leaves the wrapper at once. \<open>last_exception\<close> starts as
  \<^verbatim>\<open>None\<close>; the statement after the loop raises it, and \<^verbatim>\<open>raise None\<close> is a
  \<^verbatim>\<open>TypeError\<close>.
\<close>

fun retry_loop ::
  "'f arith \<Rightarrow> ('f \<Rightarrow> py_exception option) \<Rightarrow> int \<Rightarrow> 'f \<Rightarrow> string \<Rightarrow>
   ('args, 's, 'a) operation \<Rightarrow> 'args \<Rightarrow> int list \<Rightarrow> py_exception option \<Rightarrow>
   ('s, 'f) world \<Rightarrow> (py_exception + 'a) \<times> ('s, 'f) world" where
  "retry_loop A time_sleep max_retries base_delay func_name func args [] last_exception w =
     (case last_exception of
        None \<Rightarrow>
          (Inl (PyException ''TypeError'' True ''exceptions must derive from BaseException''), w)
      | Some e \<Rightarrow> (Inl e, w))"
| "retry_loop A time_sleep max_retries base_delay func_name func args (attempt # rest)
       last_exception w =
     (case invoke func args w of
        (Inr v, w1) \<Rightarrow> (Inr v, w1)
      | (Inl e, w1) \<Rightarrow>
          if \<not> exc_is_exception e then (Inl e, w1)
          else if is_rate_limit e then
            if attempt < max_retries then
              (case py_mul_int A base_delay (2 ^ nat attempt) of
                 Inl e' \<Rightarrow> (Inl e', w1)
               | Inr delay \<Rightarrow>
                   (case py_sleep time_sleep delay
                           (log_event (LogWarning func_name (attempt + 1) max_retries delay) w1) of
                      (Inl e', w2) \<Rightarrow> (Inl e', w2)
                    | (Inr u, w2) \<Rightarrow>
                        retry_loop A time_sleep max_retries base_delay func_name func args rest
                          (Some e) w2))
            else
              retry_loop A time_sleep max_retries base_delay func_name func args rest (Some e)
                (log_event (LogError func_name max_retries) w1)
          else (Inl e, w1))"

definition retry_on_rate_limit ::
  "'f arith \<Rightarrow> ('f \<Rightarrow> py_exception option) \<Rightarrow> int \<Rightarrow> 'f \<Rightarrow> string \<Rightarrow>
   ('args, 's, 'a) operation \<Rightarrow> 'args \<Rightarrow> ('s, 'f) world \<Rightarrow>
   (py_exception + 'a) \<times> ('s, 'f) world" where
  "retry_on_rate_limit A time_sleep max_retries base_delay func_name func args w =
     retry_loop A time_sleep max_retries base_delay func_name func args [0..max_retries] None w"

text \<open>
  The two exported names are the decorated bodies,
  \<^verbatim>\<open>@retry_on_rate_limit(max_retries=5, base_delay=2.0)\<close>. The bodies are pure: they
  leave the state of the world as it is. The base delay \<open>2.0\<close> is the float of \<open>2\<close>.
\<close>

definition pure_operation :: "('args \<Rightarrow> py_exception + 'a) \<Rightarrow> ('args, 's, 'a) operation" where
  "pure_operation f args s = (f args, s)"

definition calculate_mortgage ::
  "'f arith \<Rightarrow> ('f \<Rightarrow> py_exception option) \<Rightarrow> 'f \<Rightarrow> 'f \<Rightarrow> 'f \<Rightarrow> int \<Rightarrow> ('s, 'f) world \<Rightarrow>
   (py_exception + 'f py_dict) \<times> ('s, 'f) world" where
  "calculate_mortgage A time_sleep price down_payment_pct interest_rate term_years w =
     retry_on_rate_limit A time_sleep 5 (f_lit A 2) ''calculate_mortgage''
       (pure_operation (\<lambda>(p, d, i, t). calculate_mortgage_body A p d i t))
       (price, down_payment_pct, interest_rate, term_years) w"

definition calculate_cashflow ::
  "'f arith \<Rightarrow> ('f \<Rightarrow> py_exception option) \<Rightarrow> 'f \<Rightarrow> 'f \<Rightarrow> 'f \<Rightarrow> 'f \<Rightarrow> 'f \<Rightarrow> 'f \<Rightarrow> 'f \<Rightarrow> 'f \<Rightarrow>
   ('s, 'f) world \<Rightarrow> (py_exception + 'f py_dict) \<times> ('s, 'f) world" where
  "calculate_cashflow A time_sleep monthly_rent mortgage_payment monthly_taxes monthly_insurance
       vacancy_rate_pct maintenance_pct property_price total_cash_invested w =
     retry_on_rate_limit A time_sleep 5 (f_lit A 2) ''calculate_cashflow''
       (pure_operation
          (\<lambda>(r, m, t, i, v, mp, p, c). calculate_cashflow_body A r m t i v mp p c))
       (monthly_rent, mortgage_payment, monthly_taxes, monthly_insurance,
        vacancy_rate_pct, maintenance_pct, property_price, total_cash_invested) w"

section \<open>Reading a result\<close>

text \<open>
  \<^verbatim>\<open>result[key]\<close> on what a calculator returned; \<open>None\<close> when the key is absent or the
  call raised. \<open>no_error_record\<close> says that a call did not return a record with an
  \<open>error\<close> key.
\<close>

definition field_of :: "py_exception + 'f py_dict \<Rightarrow> string \<Rightarrow> 'f py_value option" where
  "field_of r key = (case r of Inl e \<Rightarrow> None | Inr d \<Rightarrow> map_of d key)"

definition no_error_record :: "py_exception + 'f py_dict \<Rightarrow> bool" where
  "no_error_record r = (case r of Inl e \<Rightarrow> True | Inr d \<Rightarrow> map_of d ''error'' = None)"

section \<open>Notions for the statements\<close>

text \<open>
  The loan amount as the body computes it, \<^verbatim>\<open>price - price * (down_payment_pct / 100)\<close>.
\<close>

definition loan_amount_of :: "'f arith \<Rightarrow> 'f \<Rightarrow> 'f \<Rightarrow> 'f" where
  "loan_amount_of A price down_payment_pct =
     f_sub A price (f_mul A price (f_div A down_payment_pct (f_lit A 100)))"

text \<open>
  The quantities of the specification's algorithms, each composed of float
  operations as the source composes it. For the mortgage: the down payment, the
  monthly rate \<open>r\<close>, and the amortization formula
  \<open>loan_amount \<times> [r(1+r)^n] / [(1+r)^n - 1]\<close>, where \<open>growth\<close> stands for \<open>(1+r)^n\<close>.
  For the cash flow: a reserve as a percentage of the rent, the monthly total of the
  five expenses, the annual net operating income without the mortgage payment, and
  the three ratios with their guards.
\<close>

definition down_payment_of :: "'f arith \<Rightarrow> 'f \<Rightarrow> 'f \<Rightarrow> 'f" where
  "down_payment_of A price down_payment_pct =
     f_mul A price (f_div A down_payment_pct (f_lit A 100))"

definition monthly_rate_of :: "'f arith \<Rightarrow> 'f \<Rightarrow> 'f" where
  "monthly_rate_of A interest_rate = f_div A (f_div A interest_rate (f_lit A 100)) (f_lit A 12)"

definition amortized_payment :: "'f arith \<Rightarrow> 'f \<Rightarrow> 'f \<Rightarrow> 'f \<Rightarrow> 'f" where
  "amortized_payment A loan_amount r growth =
     f_mul A loan_amount (f_div A (f_mul A r growth) (f_sub A growth (f_lit A 1)))"

definition reserve_of :: "'f arith \<Rightarrow> 'f \<Rightarrow> 'f \<Rightarrow> 'f" where
  "reserve_of A monthly_rent pct = f_mul A monthly_rent (f_div A pct (f_lit A 100))"

definition total_monthly_of :: "'f arith \<Rightarrow> 'f \<Rightarrow> 'f \<Rightarrow> 'f \<Rightarrow> 'f \<Rightarrow> 'f \<Rightarrow> 'f" where
  "total_monthly_of A mortgage_payment monthly_taxes monthly_insurance
       vacancy_reserve maintenance_reserve =
     f_add A (f_add A (f_add A (f_add A mortgage_payment monthly_taxes) monthly_insurance)
       vacancy_reserve) maintenance_reserve"

definition annual_noi_of :: "'f arith \<Rightarrow> 'f \<Rightarrow> 'f \<Rightarrow> 'f \<Rightarrow> 'f \<Rightarrow> 'f \<Rightarrow> 'f" where
  "annual_noi_of A monthly_rent vacancy_reserve maintenance_reserve monthly_taxes
       monthly_insurance =
     f_mul A
       (f_sub A (f_sub A (f_sub A (f_sub A monthly_rent vacancy_reserve) maintenance_reserve)
          monthly_taxes) monthly_insurance)
       (f_lit A 12)"

definition percent_ratio_of :: "'f arith \<Rightarrow> 'f \<Rightarrow> 'f \<Rightarrow> 'f" where
  "percent_ratio_of A amount base =
     (if f_lt A (f_lit A 0) base then f_mul A (f_div A amount base) (f_lit A 100)
      else f_lit A 0)"

definition ratio_of :: "'f arith \<Rightarrow> 'f \<Rightarrow> 'f \<Rightarrow> 'f" where
  "ratio_of A amount base =
     (if f_lt A (f_lit A 0) base then f_div A amount base else f_lit A 0)"

text \<open>
  Facts about floats that the statements on the sentinel values and on a down
  payment of 100 per cent rest on. Each holds of Python's floats for every \<open>x\<close>,
  the infinities and NaN included: \<^verbatim>\<open>0.0 > 0.0\<close> is false; \<^verbatim>\<open>x <= 0\<close> excludes
  \<^verbatim>\<open>x > 0\<close>; \<^verbatim>\<open>x > 0\<close> excludes \<^verbatim>\<open>x == 0\<close>; \<^verbatim>\<open>round(0.0, 2)\<close> and
  \<^verbatim>\<open>round(0.0, 4)\<close> are \<^verbatim>\<open>0.0\<close>; and \<^verbatim>\<open>100 / 100\<close> is \<^verbatim>\<open>1.0\<close>.
\<close>

definition float_laws :: "'f arith \<Rightarrow> bool" where
  "float_laws A \<longleftrightarrow>
     \<not> f_lt A (f_lit A 0) (f_lit A 0)
     \<and> (\<forall>x. f_le A x (f_lit A 0) \<longrightarrow> \<not> f_lt A (f_lit A 0) x)
     \<and> (\<forall>x. f_lt A (f_lit A 0) x \<longrightarrow> \<not> f_eq A x (f_lit A 0))
     \<and> f_round A (f_lit A 0) 2 = f_lit A 0
     \<and> f_round A (f_lit A 0) 4 = f_lit A 0
     \<and> f_div A (f_lit A 100) (f_lit A 100) = f_lit A 1"

text \<open>
  Runs of the retry wrapper. A failure is retryable when the handler catches it and
  its string has the rate-limit signature. \<open>state_after func args k s\<close> is the state
  of the world after \<open>k\<close> calls of the operation from \<open>s\<close>, and \<open>fails_retryably\<close> says
  that the call made in a state raises a retryable failure. \<open>backoff_delay\<close> is the
  delay of attempt \<open>i\<close>, \<open>base_delay \<times> 2^i\<close> in float arithmetic, and \<open>delay_accepted\<close>
  says that this delay can be computed and that \<^verbatim>\<open>time.sleep\<close> accepts it.
  \<open>backoff_events\<close> is the backoff policy as a trace: attempts \<open>i\<close> to \<open>i + k - 1\<close> each
  call the operation, log a warning and suspend for the delay of the attempt.
\<close>

definition retryable :: "py_exception \<Rightarrow> bool" where
  "retryable e \<longleftrightarrow> exc_is_exception e \<and> is_rate_limit e"

definition next_state :: "('args, 's, 'a) operation \<Rightarrow> 'args \<Rightarrow> 's \<Rightarrow> 's" where
  "next_state func args s = snd (func args s)"

definition state_after :: "('args, 's, 'a) operation \<Rightarrow> 'args \<Rightarrow> nat \<Rightarrow> 's \<Rightarrow> 's" where
  "state_after func args k s = (next_state func args ^^ k) s"

definition fails_retryably :: "('args, 's, 'a) operation \<Rightarrow> 'args \<Rightarrow> 's \<Rightarrow> bool" where
  "fails_retryably func args s =
     (case fst (func args s) of Inl e \<Rightarrow> retryable e | Inr v \<Rightarrow> False)"

definition backoff_delay :: "'f arith \<Rightarrow> 'f \<Rightarrow> nat \<Rightarrow> 'f" where
  "backoff_delay A base_delay i =
     (case f_conv A (2 ^ i) of None \<Rightarrow> base_delay | Some c \<Rightarrow> f_mul A base_delay c)"

definition delay_accepted :: "'f arith \<Rightarrow> ('f \<Rightarrow> py_exception option) \<Rightarrow> 'f \<Rightarrow> nat \<Rightarrow> bool" where
  "delay_accepted A time_sleep base_delay i =
     (case f_conv A (2 ^ i) of
        None \<Rightarrow> False
      | Some c \<Rightarrow> time_sleep (f_mul A base_delay c) = None)"

definition backoff_events :: "'f arith \<Rightarrow> string \<Rightarrow> int \<Rightarrow> 'f \<Rightarrow> nat \<Rightarrow> nat \<Rightarrow> 'f event list" where
  "backoff_events A func_name max_retries base_delay i k =
     concat (map (\<lambda>j. [Call,
                       LogWarning func_name (int j + 1) max_retries (backoff_delay A base_delay j),
                       Sleep (backoff_delay A base_delay j)]) [i..<i + k])"

fun sleeps_of :: "'f event list \<Rightarrow> 'f list" where
  "sleeps_of [] = []"
| "sleeps_of (Sleep d # evs) = d # sleeps_of evs"
| "sleeps_of (ev # evs) = sleeps_of evs"

section \<open>A sample arithmetic and sample operations\<close>

text \<open>
  To run the model on explicit inputs, the parameters need values. \<open>exact_arith\<close> is
  the arithmetic of the real numbers without rounding: sums, differences, products
  and quotients are exact, \<^verbatim>\<open>**\<close> and the conversion of an int raise their
  \<^verbatim>\<open>OverflowError\<close> from the bound of binary64 on (values of magnitude
  \<open>2^1024 - 2^970\<close> and more round to infinity), and \<open>exact_round\<close> rounds to the
  nearest multiple of \<open>10^-ndigits\<close>, a tie going to the even neighbour. It is no
  model of the floats in general; the theorems below hold for every arithmetic and
  do not refer to it. It serves to show that the hypotheses of the theorems can be
  met, and to evaluate the model on explicit inputs on which float arithmetic
  returns the same results.
\<close>

definition round_half_even :: "real \<Rightarrow> int" where
  "round_half_even x =
     (let f = \<lfloor>x\<rfloor>; d = x - of_int f
      in if d < 1 / 2 then f
         else if 1 / 2 < d then f + 1
         else if even f then f else f + 1)"

definition exact_round :: "real \<Rightarrow> nat \<Rightarrow> real" where
  "exact_round x ndigits = of_int (round_half_even (x * 10 ^ ndigits)) / 10 ^ ndigits"

definition binary64_bound :: real where
  "binary64_bound = 2 ^ 1024 - 2 ^ 970"

definition exact_pow :: "real \<Rightarrow> int \<Rightarrow> real pow_outcome" where
  "exact_pow x n =
     (if binary64_bound \<le> \<bar>of_int n\<bar> then Pow_int_too_large
      else let y = (if 0 \<le> n then x ^ nat n else inverse (x ^ nat (- n)))
           in if binary64_bound \<le> \<bar>y\<bar> then Pow_out_of_range else Pow_value y)"

definition exact_arith :: "real arith" where
  "exact_arith =
     \<lparr>f_lit = of_int,
      f_conv = (\<lambda>n. if binary64_bound \<le> \<bar>of_int n\<bar> then None else Some (of_int n)),
      f_add = (+),
      f_sub = (-),
      f_mul = (*),
      f_div = (/),
      f_pow = exact_pow,
      f_round = exact_round,
      f_eq = (=),
      f_lt = (<),
      f_le = (\<le>)\<rparr>"

text \<open>
  \<^verbatim>\<open>time.sleep\<close> as CPython 3.11 implements it on a 64-bit clock of nanoseconds, on
  real lengths: a length whose nanoseconds leave the clock's range is an
  \<^verbatim>\<open>OverflowError\<close>, a negative length a \<^verbatim>\<open>ValueError\<close>.
\<close>

definition cpython_sleep :: "real \<Rightarrow> py_exception option" where
  "cpython_sleep secs =
     (if 2 ^ 63 < secs * 10 ^ 9 \<or> secs * 10 ^ 9 < - (2 ^ 63) then
        Some (PyException ''OverflowError'' True ''timestamp out of range for platform time_t'')
      else if secs < 0 then
        Some (PyException ''ValueError'' True ''sleep length must be non-negative'')
      else None)"

text \<open>
  Operations to run the wrapper on: one that is rate-limited on every call, one
  that is rate-limited on its first two calls and then answers, one that fails with
  an error of another kind, and one that is interrupted by a \<^verbatim>\<open>SystemExit\<close> whose
  message has the rate-limit signature. The state counts the calls made.
\<close>

definition always_limited :: "(unit, nat, string) operation" where
  "always_limited args calls =
     (Inl (PyException ''ClientError'' True ''429 RESOURCE_EXHAUSTED''), Suc calls)"

definition limited_twice :: "(unit, nat, string) operation" where
  "limited_twice args calls =
     (if calls < 2
      then (Inl (PyException ''ClientError'' True ''429 RESOURCE_EXHAUSTED''), Suc calls)
      else (Inr ''done'', Suc calls))"

definition broken :: "(unit, nat, string) operation" where
  "broken args calls = (Inl (PyException ''ValueError'' True ''invalid price''), Suc calls)"

definition interrupted :: "(unit, nat, string) operation" where
  "interrupted args calls =
     (Inl (PyException ''SystemExit'' False ''Rate limit exceeded''), Suc calls)"

section \<open>Facts about the model\<close>

subsection \<open>The sample arithmetic\<close>

lemma exact_round_zero: "exact_round 0 n = 0"
  by (simp add: exact_round_def round_half_even_def)

lemma exact_arith_simps:
  "f_lit exact_arith k = of_int k"
  "f_conv exact_arith n = (if binary64_bound \<le> \<bar>of_int n\<bar> then None else Some (of_int n))"
  "f_pow exact_arith x n = exact_pow x n"
  "f_add exact_arith x y = x + y"
  "f_sub exact_arith x y = x - y"
  "f_mul exact_arith x y = x * y"
  "f_div exact_arith x y = x / y"
  "f_round exact_arith x d = exact_round x d"
  "f_eq exact_arith x y \<longleftrightarrow> x = y"
  "f_lt exact_arith x y \<longleftrightarrow> x < y"
  "f_le exact_arith x y \<longleftrightarrow> x \<le> y"
  by (simp_all add: exact_arith_def)

lemma float_laws_exact_arith: "float_laws exact_arith"
  by (simp add: float_laws_def exact_arith_simps exact_round_zero)

subsection \<open>What the calculators can raise\<close>

lemma not_rate_limit_ZeroDivisionError: "\<not> is_rate_limit ZeroDivisionError"
  by (simp add: is_rate_limit_def py_lower_def lower_char_def sublist_code ZeroDivisionError_def)

lemma not_rate_limit_OverflowError_range: "\<not> is_rate_limit OverflowError_range"
  by (simp add: is_rate_limit_def py_lower_def lower_char_def sublist_code OverflowError_range_def)

lemma not_rate_limit_OverflowError_int: "\<not> is_rate_limit OverflowError_int"
  by (simp add: is_rate_limit_def py_lower_def lower_char_def sublist_code OverflowError_int_def)

lemma py_div_raises: "py_div A a b = Inl e \<Longrightarrow> \<not> is_rate_limit e"
  by (auto simp add: py_div_def not_rate_limit_ZeroDivisionError split: if_splits)

lemma py_pow_raises: "py_pow A x n = Inl e \<Longrightarrow> \<not> is_rate_limit e"
  by (auto simp add: py_pow_def not_rate_limit_OverflowError_range
        not_rate_limit_OverflowError_int split: pow_outcome.splits)

lemma py_mul_int_raises: "py_mul_int A x n = Inl e \<Longrightarrow> \<not> is_rate_limit e"
  by (auto simp add: py_mul_int_def not_rate_limit_OverflowError_int split: option.splits)

lemma py_bind_eq_Inl:
  "py_bind m f = Inl e \<longleftrightarrow> m = Inl e \<or> (\<exists>x. m = Inr x \<and> f x = Inl e)"
  by (cases m) (simp_all add: py_bind_def)

lemma mortgage_body_raises:
  assumes "calculate_mortgage_body A price down_payment_pct interest_rate term_years = Inl e"
  shows "\<not> is_rate_limit e"
proof -
  define r where "r = f_div A (f_div A interest_rate (f_lit A 100)) (f_lit A 12)"
  define L where "L = f_sub A price (f_mul A price (f_div A down_payment_pct (f_lit A 100)))"
  define n where "n = term_years * 12"
  from assms have formula:
    "py_bind (py_pow A (f_add A (f_lit A 1) r) n)
       (\<lambda>growth.
     py_bind (py_pow A (f_add A (f_lit A 1) r) n)
       (\<lambda>growth'.
     py_bind (py_div A (f_mul A r growth) (f_sub A growth' (f_lit A 1)))
       (\<lambda>factor.
     py_bind (py_mul_int A (f_mul A L factor) n)
       (\<lambda>total_paid. Inr (total_paid, factor))))) = Inl e"
    unfolding r_def L_def n_def
    by (auto simp add: calculate_mortgage_body_def Let_def py_bind_def
          split: if_splits sum.splits)
  show ?thesis
    using formula
    by (auto simp add: py_bind_eq_Inl dest: py_pow_raises py_div_raises py_mul_int_raises)
qed

lemma cashflow_body_raises:
  assumes "calculate_cashflow_body A r m t i v mp p c = Inl e"
  shows "\<not> is_rate_limit e"
  using assms
  by (auto simp add: calculate_cashflow_body_def Let_def py_bind_def py_div_def
        not_rate_limit_ZeroDivisionError split: if_splits sum.splits)

subsection \<open>Runs of the retry loop\<close>

lemma backoff_events_0: "backoff_events A n m b i 0 = []"
  by (simp add: backoff_events_def)

lemma backoff_events_Suc:
  "backoff_events A n m b i (Suc k) =
     [Call, LogWarning n (int i + 1) m (backoff_delay A b i), Sleep (backoff_delay A b i)]
       @ backoff_events A n m b (Suc i) k"
  by (simp add: backoff_events_def upt_rec)

lemma state_after_Suc: "state_after f a (Suc k) s = state_after f a k (next_state f a s)"
  by (simp add: state_after_def funpow_swap1)

lemma fails_retryablyE:
  assumes "fails_retryably f a s"
  obtains e s' where "f a s = (Inl e, s')" and "exc_is_exception e" and "is_rate_limit e"
proof -
  obtain r s' where call: "f a s = (r, s')"
    by (cases "f a s")
  with assms obtain e where "r = Inl e" and "retryable e"
    by (auto simp add: fails_retryably_def split: sum.splits)
  with call that show thesis
    by (simp add: retryable_def)
qed

lemma retry_step:
  assumes call: "f a (op_state w) = (Inl e, s')"
    and caught: "exc_is_exception e" and rl: "is_rate_limit e"
    and lt: "int i < m"
    and ok: "delay_accepted A ts b i"
  shows "retry_loop A ts m b n f a (int i # rest) le w =
           retry_loop A ts m b n f a rest (Some e)
             (w\<lparr>op_state := s',
                trace := trace w @ [Call, LogWarning n (int i + 1) m (backoff_delay A b i),
                                    Sleep (backoff_delay A b i)]\<rparr>)"
proof -
  from ok obtain c where c: "f_conv A (2 ^ i) = Some c" and sl: "ts (f_mul A b c) = None"
    by (auto simp add: delay_accepted_def split: option.splits)
  show ?thesis
    using call caught rl lt c sl
    by (simp add: invoke_def py_mul_int_def py_sleep_def log_event_def backoff_delay_def)
qed

lemma retry_loop_settles:
  assumes "\<forall>j<k. fails_retryably f a (state_after f a j (op_state w))"
    and "\<not> fails_retryably f a (state_after f a k (op_state w))"
    and "int i + int k \<le> m"
    and "\<forall>j<k. delay_accepted A ts b (i + j)"
  shows "retry_loop A ts m b n f a [int i..m] le w =
           (fst (f a (state_after f a k (op_state w))),
            w\<lparr>op_state := state_after f a (Suc k) (op_state w),
              trace := trace w @ backoff_events A n m b i k @ [Call]\<rparr>)"
  using assms
proof (induction k arbitrary: i w le)
  case 0
  then have up: "[int i..m] = int i # [int i + 1..m]"
    by (simp add: upto_rec1)
  from 0 show ?case
    unfolding up
    by (auto simp add: invoke_def fails_retryably_def retryable_def state_after_def
          next_state_def backoff_events_0 split: prod.splits sum.splits)
next
  case (Suc k)
  then have up: "[int i..m] = int i # [int (Suc i)..m]" and lt: "int i < m"
    by (simp_all add: upto_rec1 add.commute)
  from Suc.prems(1) have first: "fails_retryably f a (op_state w)"
    by (auto simp add: state_after_def)
  from Suc.prems(4) have ok: "delay_accepted A ts b i"
    by force
  from first obtain e s' where call: "f a (op_state w) = (Inl e, s')"
    and caught: "exc_is_exception e" and rl: "is_rate_limit e"
    by (rule fails_retryablyE)
  define w2 where "w2 = w\<lparr>op_state := s',
      trace := trace w @ [Call, LogWarning n (int i + 1) m (backoff_delay A b i),
                          Sleep (backoff_delay A b i)]\<rparr>"
  have step: "retry_loop A ts m b n f a [int i..m] le w =
      retry_loop A ts m b n f a [int (Suc i)..m] (Some e) w2"
    unfolding up w2_def
    by (rule retry_step [where f = f and a = a and w = w and e = e and s' = s',
          OF call caught rl lt ok])
  have s': "s' = next_state f a (op_state w)"
    using call by (simp add: next_state_def)
  have IH: "retry_loop A ts m b n f a [int (Suc i)..m] (Some e) w2 =
      (fst (f a (state_after f a k (op_state w2))),
       w2\<lparr>op_state := state_after f a (Suc k) (op_state w2),
          trace := trace w2 @ backoff_events A n m b (Suc i) k @ [Call]\<rparr>)"
  proof (rule Suc.IH)
    show "\<forall>j<k. fails_retryably f a (state_after f a j (op_state w2))"
      using Suc.prems(1) by (auto simp add: w2_def s' state_after_Suc[symmetric])
    show "\<not> fails_retryably f a (state_after f a k (op_state w2))"
      using Suc.prems(2) by (simp add: w2_def s' state_after_Suc[symmetric])
    show "int (Suc i) + int k \<le> m"
      using Suc.prems(3) by simp
    show "\<forall>j<k. delay_accepted A ts b (Suc i + j)"
      using Suc.prems(4) by (auto dest: spec [where x = "Suc j" for j])
  qed
  show ?case
    unfolding step IH
    by (simp add: w2_def s' state_after_Suc[symmetric] backoff_events_Suc)
qed

lemma retry_loop_exhausts:
  assumes "\<forall>j\<le>k. fails_retryably f a (state_after f a j (op_state w))"
    and "int i + int k = m"
    and "\<forall>j<k. delay_accepted A ts b (i + j)"
  shows "retry_loop A ts m b n f a [int i..m] le w =
           (fst (f a (state_after f a k (op_state w))),
            w\<lparr>op_state := state_after f a (Suc k) (op_state w),
              trace := trace w @ backoff_events A n m b i k @ [Call, LogError n m]\<rparr>)"
  using assms
proof (induction k arbitrary: i w le)
  case 0
  then have up: "[int i..m] = [int i]" and eq: "\<not> int i < m"
    by (simp_all add: upto_rec1)
  from 0 have first: "fails_retryably f a (op_state w)"
    by (simp add: state_after_def)
  from first obtain e s' where call: "f a (op_state w) = (Inl e, s')"
    and caught: "exc_is_exception e" and rl: "is_rate_limit e"
    by (rule fails_retryablyE)
  show ?case
    unfolding up using call caught rl eq
    by (simp add: invoke_def log_event_def state_after_def next_state_def backoff_events_0)
next
  case (Suc k)
  then have up: "[int i..m] = int i # [int (Suc i)..m]" and lt: "int i < m"
    by (simp_all add: upto_rec1 add.commute)
  from Suc.prems(1) have first: "fails_retryably f a (op_state w)"
    by (auto simp add: state_after_def)
  from Suc.prems(3) have ok: "delay_accepted A ts b i"
    by force
  from first obtain e s' where call: "f a (op_state w) = (Inl e, s')"
    and caught: "exc_is_exception e" and rl: "is_rate_limit e"
    by (rule fails_retryablyE)
  define w2 where "w2 = w\<lparr>op_state := s',
      trace := trace w @ [Call, LogWarning n (int i + 1) m (backoff_delay A b i),
                          Sleep (backoff_delay A b i)]\<rparr>"
  have step: "retry_loop A ts m b n f a [int i..m] le w =
      retry_loop A ts m b n f a [int (Suc i)..m] (Some e) w2"
    unfolding up w2_def
    by (rule retry_step [where f = f and a = a and w = w and e = e and s' = s',
          OF call caught rl lt ok])
  have s': "s' = next_state f a (op_state w)"
    using call by (simp add: next_state_def)
  have IH: "retry_loop A ts m b n f a [int (Suc i)..m] (Some e) w2 =
      (fst (f a (state_after f a k (op_state w2))),
       w2\<lparr>op_state := state_after f a (Suc k) (op_state w2),
          trace := trace w2 @ backoff_events A n m b (Suc i) k @ [Call, LogError n m]\<rparr>)"
  proof (rule Suc.IH)
    show "\<forall>j\<le>k. fails_retryably f a (state_after f a j (op_state w2))"
    proof (intro allI impI)
      fix j assume "j \<le> k"
      then have "fails_retryably f a (state_after f a (Suc j) (op_state w))"
        using Suc.prems(1) by simp
      then show "fails_retryably f a (state_after f a j (op_state w2))"
        by (simp add: w2_def s' state_after_Suc)
    qed
    show "int (Suc i) + int k = m"
      using Suc.prems(2) by simp
    show "\<forall>j<k. delay_accepted A ts b (Suc i + j)"
      using Suc.prems(3) by (auto dest: spec [where x = "Suc j" for j])
  qed
  show ?case
    unfolding step IH
    by (simp add: w2_def s' state_after_Suc[symmetric] backoff_events_Suc)
qed

lemma retry_loop_calls:
  "count_list (trace (snd (retry_loop A ts m b n f a atts le w))) Call
     \<le> count_list (trace w) Call + length atts"
proof (induction atts arbitrary: le w)
  case Nil
  show ?case by (simp split: option.splits)
next
  case (Cons attempt rest)
  obtain r s' where call: "f a (op_state w) = (r, s')"
    by (cases "f a (op_state w)")
  define w1 where "w1 = w\<lparr>op_state := s', trace := trace w @ [Call]\<rparr>"
  have inv: "invoke f a w = (r, w1)"
    using call by (simp add: invoke_def w1_def)
  have w1: "count_list (trace w1) Call = Suc (count_list (trace w) Call)"
    by (simp add: w1_def)
  show ?case
  proof (cases "\<exists>e. r = Inl e \<and> exc_is_exception e \<and> is_rate_limit e")
    case False
    then have "retry_loop A ts m b n f a (attempt # rest) le w = (r, w1)"
      using inv by (cases r) auto
    then show ?thesis
      using w1 by simp
  next
    case True
    then obtain e where r: "r = Inl e" and caught: "exc_is_exception e" and rl: "is_rate_limit e"
      by blast
    show ?thesis
    proof (cases "attempt < m")
      case False
      have "count_list (trace (snd (retry_loop A ts m b n f a rest (Some e)
                (log_event (LogError n m) w1)))) Call
              \<le> count_list (trace (log_event (LogError n m) w1)) Call + length rest"
        by (rule Cons.IH)
      with inv r caught rl False w1 show ?thesis
        by (simp add: log_event_def)
    next
      case lt: True
      show ?thesis
      proof (cases "py_mul_int A b (2 ^ nat attempt)")
        case (Inl e')
        with inv r caught rl lt w1 show ?thesis
          by simp
      next
        case (Inr delay)
        show ?thesis
        proof (cases "ts delay")
          case (Some e')
          with inv r caught rl lt Inr w1 show ?thesis
            by (simp add: py_sleep_def log_event_def)
        next
          case None
          define w2 where "w2 = w1\<lparr>trace := trace w1 @ [LogWarning n (attempt + 1) m delay,
                                  Sleep delay]\<rparr>"
          have "count_list (trace (snd (retry_loop A ts m b n f a rest (Some e) w2))) Call
                  \<le> count_list (trace w2) Call + length rest"
            by (rule Cons.IH)
          with inv r caught rl lt Inr None w1 show ?thesis
            by (simp add: py_sleep_def log_event_def w2_def)
        qed
      qed
    qed
  qed
qed

lemma decorator_inert:
  assumes "\<And>e. f a = Inl e \<Longrightarrow> \<not> is_rate_limit e" and "0 \<le> m"
  shows "retry_on_rate_limit A ts m b n (pure_operation f) a w =
           (f a, w\<lparr>trace := trace w @ [Call]\<rparr>)"
proof -
  have up: "[0..m] = 0 # [1..m]"
    using assms(2) by (simp add: upto_rec1)
  show ?thesis
    unfolding retry_on_rate_limit_def up
    using assms(1) by (cases "f a") (simp_all add: invoke_def pure_operation_def)
qed

subsection \<open>The decorated calculators\<close>

lemma calculate_mortgage_decorated:
  "calculate_mortgage A ts price down_payment_pct interest_rate term_years w =
     (calculate_mortgage_body A price down_payment_pct interest_rate term_years,
      w\<lparr>trace := trace w @ [Call]\<rparr>)"
proof -
  have "retry_on_rate_limit A ts 5 (f_lit A 2) ''calculate_mortgage''
          (pure_operation (\<lambda>(p, d, i, t). calculate_mortgage_body A p d i t))
          (price, down_payment_pct, interest_rate, term_years) w =
        ((\<lambda>(p, d, i, t). calculate_mortgage_body A p d i t)
           (price, down_payment_pct, interest_rate, term_years),
         w\<lparr>trace := trace w @ [Call]\<rparr>)"
    by (rule decorator_inert) (simp_all add: mortgage_body_raises)
  then show ?thesis
    by (simp add: calculate_mortgage_def)
qed

lemma calculate_cashflow_decorated:
  "calculate_cashflow A ts monthly_rent mortgage_payment monthly_taxes monthly_insurance
       vacancy_rate_pct maintenance_pct property_price total_cash_invested w =
     (calculate_cashflow_body A monthly_rent mortgage_payment monthly_taxes monthly_insurance
        vacancy_rate_pct maintenance_pct property_price total_cash_invested,
      w\<lparr>trace := trace w @ [Call]\<rparr>)"
proof -
  have "retry_on_rate_limit A ts 5 (f_lit A 2) ''calculate_cashflow''
          (pure_operation
             (\<lambda>(r, m, t, i, v, mp, p, c). calculate_cashflow_body A r m t i v mp p c))
          (monthly_rent, mortgage_payment, monthly_taxes, monthly_insurance,
           vacancy_rate_pct, maintenance_pct, property_price, total_cash_invested) w =
        ((\<lambda>(r, m, t, i, v, mp, p, c). calculate_cashflow_body A r m t i v mp p c)
           (monthly_rent, mortgage_payment, monthly_taxes, monthly_insurance,
            vacancy_rate_pct, maintenance_pct, property_price, total_cash_invested),
         w\<lparr>trace := trace w @ [Call]\<rparr>)"
    by (rule decorator_inert) (simp_all add: cashflow_body_raises)
  then show ?thesis
    by (simp add: calculate_cashflow_def)
qed

lemma mortgage_zero_loan_record:
  assumes "\<not> f_le A price (f_lit A 0)"
    and "f_le A (f_lit A 0) down_payment_pct" and "f_le A down_payment_pct (f_lit A 100)"
    and "\<not> f_le A interest_rate (f_lit A 0)" and "0 < term_years"
    and "f_eq A (loan_amount_of A price down_payment_pct) (f_lit A 0)"
  shows "calculate_mortgage_body A price down_payment_pct interest_rate term_years =
     Inr [(''price'', PyFloat (f_round A price 2)),
          (''down_payment_pct'', PyFloat down_payment_pct),
          (''down_payment_amount'',
             PyFloat (f_round A (f_mul A price (f_div A down_payment_pct (f_lit A 100))) 2)),
          (''loan_amount'', PyFloat (f_lit A 0)),
          (''monthly_payment'', PyFloat (f_lit A 0)),
          (''total_interest'', PyFloat (f_lit A 0)),
          (''total_cost'', PyFloat (f_round A price 2))]"
  using assms by (simp add: calculate_mortgage_body_def loan_amount_of_def Let_def)

lemma float_laws_nonzero:
  "float_laws A \<Longrightarrow> f_lt A (f_lit A 0) x \<Longrightarrow> \<not> f_eq A x (f_lit A 0)"
  by (simp add: float_laws_def)

lemma float_laws_le_zero:
  "float_laws A \<Longrightarrow> f_le A x (f_lit A 0) \<Longrightarrow> \<not> f_lt A (f_lit A 0) x"
  by (simp add: float_laws_def)

lemma cashflow_success_keys:
  assumes "\<not> f_lt A monthly_rent (f_lit A 0)" and "\<not> f_lt A mortgage_payment (f_lit A 0)"
    and "float_laws A"
  shows "\<exists>d. calculate_cashflow_body A monthly_rent mortgage_payment monthly_taxes
                monthly_insurance vacancy_rate_pct maintenance_pct property_price
                total_cash_invested = Inr d
            \<and> map fst d = [''monthly_rent'', ''expenses'', ''monthly_cash_flow'',
                  ''annual_cash_flow'', ''annual_noi'', ''cap_rate_pct'',
                  ''cash_on_cash_return_pct'', ''rent_to_price_ratio'']"
  using assms(1,2) float_laws_nonzero [OF assms(3)]
  by (cases "f_lt A (f_lit A 0) property_price";
      cases "f_lt A (f_lit A 0) total_cash_invested")
     (simp_all add: calculate_cashflow_body_def Let_def py_bind_def py_div_def)

lemma cashflow_price_sentinels:
  assumes "\<not> f_lt A monthly_rent (f_lit A 0)" and "\<not> f_lt A mortgage_payment (f_lit A 0)"
    and "float_laws A" and "\<not> f_lt A (f_lit A 0) property_price"
  shows "field_of (calculate_cashflow_body A monthly_rent mortgage_payment monthly_taxes
                monthly_insurance vacancy_rate_pct maintenance_pct property_price
                total_cash_invested) ''cap_rate_pct'' = Some (PyFloat (f_lit A 0))"
    and "field_of (calculate_cashflow_body A monthly_rent mortgage_payment monthly_taxes
                monthly_insurance vacancy_rate_pct maintenance_pct property_price
                total_cash_invested) ''rent_to_price_ratio'' = Some (PyFloat (f_lit A 0))"
proof -
  from assms(3) have r2: "f_round A (f_lit A 0) 2 = f_lit A 0"
    and r4: "f_round A (f_lit A 0) 4 = f_lit A 0"
    by (simp_all add: float_laws_def)
  show "field_of (calculate_cashflow_body A monthly_rent mortgage_payment monthly_taxes
                monthly_insurance vacancy_rate_pct maintenance_pct property_price
                total_cash_invested) ''cap_rate_pct'' = Some (PyFloat (f_lit A 0))"
    using assms(1,2,4) float_laws_nonzero [OF assms(3)] r2
    by (cases "f_lt A (f_lit A 0) total_cash_invested")
       (simp_all add: calculate_cashflow_body_def Let_def py_bind_def py_div_def field_of_def)
  show "field_of (calculate_cashflow_body A monthly_rent mortgage_payment monthly_taxes
                monthly_insurance vacancy_rate_pct maintenance_pct property_price
                total_cash_invested) ''rent_to_price_ratio'' = Some (PyFloat (f_lit A 0))"
    using assms(1,2,4) float_laws_nonzero [OF assms(3)] r4
    by (cases "f_lt A (f_lit A 0) total_cash_invested")
       (simp_all add: calculate_cashflow_body_def Let_def py_bind_def py_div_def field_of_def)
qed

lemma cashflow_invested_sentinel:
  assumes "\<not> f_lt A monthly_rent (f_lit A 0)" and "\<not> f_lt A mortgage_payment (f_lit A 0)"
    and "float_laws A" and "\<not> f_lt A (f_lit A 0) total_cash_invested"
  shows "field_of (calculate_cashflow_body A monthly_rent mortgage_payment monthly_taxes
                monthly_insurance vacancy_rate_pct maintenance_pct property_price
                total_cash_invested) ''cash_on_cash_return_pct'' = Some (PyFloat (f_lit A 0))"
proof -
  from assms(3) have r2: "f_round A (f_lit A 0) 2 = f_lit A 0"
    by (simp add: float_laws_def)
  show ?thesis
    using assms(1,2,4) float_laws_nonzero [OF assms(3)] r2
    by (cases "f_lt A (f_lit A 0) property_price")
       (simp_all add: calculate_cashflow_body_def Let_def py_bind_def py_div_def field_of_def)
qed

subsection \<open>Classification, backoff traces and the sample operations\<close>

lemma sublist_map_iff:
  "sublist s (map f xs) \<longleftrightarrow> (\<exists>ps t ss. xs = ps @ t @ ss \<and> map f t = s)"
proof
  assume "sublist s (map f xs)"
  then obtain ps' ss' where "map f xs = ps' @ s @ ss'"
    by (auto simp add: sublist_def)
  then obtain ps rest where xs: "xs = ps @ rest" and rest: "s @ ss' = map f rest"
    unfolding map_eq_append_conv by blast
  from rest obtain t ss where "rest = t @ ss" and "map f t = s"
    unfolding append_eq_map_conv by blast
  with xs show "\<exists>ps t ss. xs = ps @ t @ ss \<and> map f t = s"
    by blast
next
  assume "\<exists>ps t ss. xs = ps @ t @ ss \<and> map f t = s"
  then obtain ps t ss where "xs = ps @ t @ ss" and "map f t = s"
    by blast
  then have "map f xs = map f ps @ s @ map f ss"
    by simp
  then show "sublist s (map f xs)"
    by (auto simp add: sublist_def)
qed

lemma is_rate_limit_iff:
  "is_rate_limit e \<longleftrightarrow>
      (\<exists>ps t ss. exc_str e = ps @ t @ ss
         \<and> (py_lower t = ''resource_exhausted'' \<or> py_lower t = ''rate limit''))"
proof -
  have "is_rate_limit e \<longleftrightarrow>
      (\<exists>ps t ss. exc_str e = ps @ t @ ss \<and> map lower_char t = ''resource_exhausted'')
      \<or> (\<exists>ps t ss. exc_str e = ps @ t @ ss \<and> map lower_char t = ''rate limit'')"
    unfolding is_rate_limit_def Let_def py_lower_def sublist_map_iff ..
  also have "\<dots> \<longleftrightarrow>
      (\<exists>ps t ss. exc_str e = ps @ t @ ss
         \<and> (py_lower t = ''resource_exhausted'' \<or> py_lower t = ''rate limit''))"
    by (simp only: py_lower_def ex_disj_distrib conj_disj_distribL)
  finally show ?thesis .
qed

lemma sleeps_of_backoff_events:
  "sleeps_of (backoff_events A n m b i k) = map (backoff_delay A b) [i..<i + k]"
proof (induction k arbitrary: i)
  case 0
  show ?case by (simp add: backoff_events_0)
next
  case (Suc k)
  have "[i..<i + Suc k] = i # [Suc i..<Suc i + k]"
    by (simp add: upt_rec)
  then show ?case
    by (simp add: backoff_events_Suc Suc.IH)
qed

lemma calls_of_backoff_events:
  "count_list (backoff_events A n m b i k) Call = k"
proof (induction k arbitrary: i)
  case 0
  show ?case by (simp add: backoff_events_0)
next
  case (Suc k)
  then show ?case
    by (simp add: backoff_events_Suc)
qed

lemma rate_limit_429: "is_rate_limit (PyException ''ClientError'' True ''429 RESOURCE_EXHAUSTED'')"
  by (simp add: is_rate_limit_def py_lower_def lower_char_def sublist_code)

lemma rate_limit_SystemExit:
  "is_rate_limit (PyException ''SystemExit'' False ''Rate limit exceeded'')"
  by (simp add: is_rate_limit_def py_lower_def lower_char_def sublist_code)

lemma not_rate_limit_ValueError: "\<not> is_rate_limit (PyException ''ValueError'' True ''invalid price'')"
  by (simp add: is_rate_limit_def py_lower_def lower_char_def sublist_code)

lemma always_limited_fails: "fails_retryably always_limited a s"
  by (simp add: fails_retryably_def retryable_def always_limited_def rate_limit_429)

lemma always_limited_state: "state_after always_limited a k s = s + k"
  by (induction k arbitrary: s)
     (simp_all add: state_after_Suc, simp_all add: state_after_def next_state_def always_limited_def)

lemma limited_twice_fails: "fails_retryably limited_twice a s \<longleftrightarrow> s < 2"
  by (simp add: fails_retryably_def retryable_def limited_twice_def rate_limit_429)

lemma limited_twice_state: "state_after limited_twice a k s = s + k"
  by (induction k arbitrary: s)
     (simp_all add: state_after_Suc, simp_all add: state_after_def next_state_def limited_twice_def)

lemma broken_state: "state_after broken a k s = s + k"
  by (induction k arbitrary: s)
     (simp_all add: state_after_Suc, simp_all add: state_after_def next_state_def broken_def)

lemma sample_delays_accepted:
  assumes "j < 5"
  shows "delay_accepted exact_arith cpython_sleep 2 j"
proof -
  from assms consider "j = 0" | "j = 1" | "j = 2" | "j = 3" | "j = 4"
    by linarith
  then show ?thesis
    by cases (simp_all add: delay_accepted_def exact_arith_simps cpython_sleep_def
         binary64_bound_def)
qed

lemma sample_backoff_delay:
  assumes "i < 5"
  shows "backoff_delay exact_arith b i = b * 2 ^ i"
proof -
  from assms consider "i = 0" | "i = 1" | "i = 2" | "i = 3" | "i = 4"
    by linarith
  then show ?thesis
    by cases (simp_all add: backoff_delay_def exact_arith_simps binary64_bound_def)
qed

section \<open>The claims\<close>

text \<open>
  Claim C1. The claim asks for all nine fields of the mortgage result on every
  input that passes the four validations, also when the loan amount is zero. On
  every such input whose loan amount equals zero, as at price 100000 with 100 per
  cent down, rate 6.8 and term 30, the code takes the early return of the
  zero-loan branch, whose dictionary has seven keys: \<open>interest_rate\<close> and
  \<open>term_years\<close>, which the other return carries, are absent.
\<close>

theorem mortgage_zero_loan_record_lacks_fields:
  assumes "\<not> f_le A price (f_lit A 0)"
    and "f_le A (f_lit A 0) down_payment_pct" and "f_le A down_payment_pct (f_lit A 100)"
    and "\<not> f_le A interest_rate (f_lit A 0)" and "0 < term_years"
    and "f_eq A (loan_amount_of A price down_payment_pct) (f_lit A 0)"
  shows "fst (calculate_mortgage A time_sleep price down_payment_pct interest_rate term_years w) =
      Inr [(''price'', PyFloat (f_round A price 2)),
           (''down_payment_pct'', PyFloat down_payment_pct),
           (''down_payment_amount'',
              PyFloat (f_round A (f_mul A price (f_div A down_payment_pct (f_lit A 100))) 2)),
           (''loan_amount'', PyFloat (f_lit A 0)),
           (''monthly_payment'', PyFloat (f_lit A 0)),
           (''total_interest'', PyFloat (f_lit A 0)),
           (''total_cost'', PyFloat (f_round A price 2))]
    \<and> field_of (fst (calculate_mortgage A time_sleep price down_payment_pct
                        interest_rate term_years w)) ''interest_rate'' = None
    \<and> field_of (fst (calculate_mortgage A time_sleep price down_payment_pct
                        interest_rate term_years w)) ''term_years'' = None"
  by (simp add: calculate_mortgage_decorated mortgage_zero_loan_record [OF assms] field_of_def)

theorem mortgage_zero_loan_record_lacks_fields_witness:
  "\<not> f_le exact_arith 100000 (f_lit exact_arith 0)
   \<and> f_eq exact_arith (loan_amount_of exact_arith 100000 100) (f_lit exact_arith 0)
   \<and> fst (calculate_mortgage exact_arith cpython_sleep 100000 100 (34 / 5) 30
            \<lparr>op_state = (), trace = []\<rparr>) =
       Inr [(''price'', PyFloat 100000),
            (''down_payment_pct'', PyFloat 100),
            (''down_payment_amount'', PyFloat 100000),
            (''loan_amount'', PyFloat 0),
            (''monthly_payment'', PyFloat 0),
            (''total_interest'', PyFloat 0),
            (''total_cost'', PyFloat 100000)]
   \<and> field_of (fst (calculate_mortgage exact_arith cpython_sleep 100000 100 (34 / 5) 30
            \<lparr>op_state = (), trace = []\<rparr>)) ''interest_rate'' = None
   \<and> field_of (fst (calculate_mortgage exact_arith cpython_sleep 100000 100 (34 / 5) 30
            \<lparr>op_state = (), trace = []\<rparr>)) ''term_years'' = None"
  using mortgage_zero_loan_record_lacks_fields [where A = exact_arith and price = 100000
          and down_payment_pct = 100 and interest_rate = "34 / 5" and term_years = 30
          and time_sleep = cpython_sleep and w = "\<lparr>op_state = (), trace = []\<rparr>"]
  by (simp add: calculate_mortgage_decorated calculate_mortgage_body_def exact_arith_simps
        loan_amount_of_def exact_round_def round_half_even_def field_of_def)

text \<open>
  Claim C2, as amended. For an input that passes the four validations and whose
  loan amount is not zero, the calculator evaluates the amortization formula in
  float arithmetic. When \<open>(1 + r)^n\<close> has a value and \<open>(1 + r)^n - 1\<close> is not zero, it
  returns the nine-field record whose monthly payment is the formula, whose total
  interest is \<open>monthly_payment \<times> n - loan_amount\<close> and whose total cost is
  \<open>down_payment + monthly_payment \<times> n\<close>, computed without intermediate rounding and
  rounded to two decimals in the record only; the down-payment percentage and the
  interest rate are returned as given. When \<open>(1 + r)^n\<close> overflows, it raises an
  \<^verbatim>\<open>OverflowError\<close>, and when \<open>(1 + r)^n - 1\<close> is zero, a \<^verbatim>\<open>ZeroDivisionError\<close>.
\<close>

theorem mortgage_amortization:
  assumes "\<not> f_le A price (f_lit A 0)"
    and "f_le A (f_lit A 0) down_payment_pct" and "f_le A down_payment_pct (f_lit A 100)"
    and "\<not> f_le A interest_rate (f_lit A 0)" and "0 < term_years"
    and "\<not> f_eq A (loan_amount_of A price down_payment_pct) (f_lit A 0)"
  shows "(f_pow A (f_add A (f_lit A 1) (monthly_rate_of A interest_rate)) (term_years * 12) =
            Pow_value growth
          \<and> \<not> f_eq A (f_sub A growth (f_lit A 1)) (f_lit A 0)
          \<and> f_conv A (term_years * 12) = Some n \<longrightarrow>
          fst (calculate_mortgage A time_sleep price down_payment_pct interest_rate term_years w) =
            Inr [(''price'', PyFloat (f_round A price 2)),
                 (''down_payment_pct'', PyFloat down_payment_pct),
                 (''down_payment_amount'',
                    PyFloat (f_round A (down_payment_of A price down_payment_pct) 2)),
                 (''loan_amount'',
                    PyFloat (f_round A (loan_amount_of A price down_payment_pct) 2)),
                 (''interest_rate'', PyFloat interest_rate),
                 (''term_years'', PyInt term_years),
                 (''monthly_payment'',
                    PyFloat (f_round A
                      (amortized_payment A (loan_amount_of A price down_payment_pct)
                         (monthly_rate_of A interest_rate) growth) 2)),
                 (''total_interest'',
                    PyFloat (f_round A
                      (f_sub A
                         (f_mul A
                            (amortized_payment A (loan_amount_of A price down_payment_pct)
                               (monthly_rate_of A interest_rate) growth) n)
                         (loan_amount_of A price down_payment_pct)) 2)),
                 (''total_cost'',
                    PyFloat (f_round A
                      (f_add A (down_payment_of A price down_payment_pct)
                         (f_mul A
                            (amortized_payment A (loan_amount_of A price down_payment_pct)
                               (monthly_rate_of A interest_rate) growth) n)) 2))])
    \<and> (f_pow A (f_add A (f_lit A 1) (monthly_rate_of A interest_rate)) (term_years * 12) =
            Pow_out_of_range \<longrightarrow>
          fst (calculate_mortgage A time_sleep price down_payment_pct interest_rate term_years w) =
            Inl OverflowError_range)
    \<and> (f_pow A (f_add A (f_lit A 1) (monthly_rate_of A interest_rate)) (term_years * 12) =
            Pow_int_too_large \<longrightarrow>
          fst (calculate_mortgage A time_sleep price down_payment_pct interest_rate term_years w) =
            Inl OverflowError_int)
    \<and> (f_pow A (f_add A (f_lit A 1) (monthly_rate_of A interest_rate)) (term_years * 12) =
            Pow_value growth
          \<and> f_eq A (f_sub A growth (f_lit A 1)) (f_lit A 0) \<longrightarrow>
          fst (calculate_mortgage A time_sleep price down_payment_pct interest_rate term_years w) =
            Inl ZeroDivisionError)"
  using assms
  by (simp add: calculate_mortgage_decorated calculate_mortgage_body_def Let_def py_bind_def
        py_pow_def py_div_def py_mul_int_def loan_amount_of_def down_payment_of_def
        monthly_rate_of_def amortized_payment_def)

theorem mortgage_amortization_witness:
  "\<not> f_le exact_arith 1000 (f_lit exact_arith 0)
   \<and> \<not> f_eq exact_arith (loan_amount_of exact_arith 1000 0) (f_lit exact_arith 0)
   \<and> f_pow exact_arith (f_add exact_arith (f_lit exact_arith 1) (monthly_rate_of exact_arith 12))
        (1 * 12) = Pow_value ((101 / 100) ^ 12)
   \<and> fst (calculate_mortgage exact_arith cpython_sleep 1000 0 12 1 \<lparr>op_state = (), trace = []\<rparr>) =
        Inr [(''price'', PyFloat 1000),
             (''down_payment_pct'', PyFloat 0),
             (''down_payment_amount'', PyFloat 0),
             (''loan_amount'', PyFloat 1000),
             (''interest_rate'', PyFloat 12),
             (''term_years'', PyInt 1),
             (''monthly_payment'', PyFloat (8885 / 100)),
             (''total_interest'', PyFloat (6619 / 100)),
             (''total_cost'', PyFloat (106619 / 100))]"
  using mortgage_amortization [where A = exact_arith and price = 1000 and down_payment_pct = 0
          and interest_rate = 12 and term_years = 1 and growth = "(101 / 100) ^ 12" and n = 12
          and time_sleep = cpython_sleep and w = "\<lparr>op_state = (), trace = []\<rparr>"]
  by (simp add: exact_arith_simps exact_pow_def binary64_bound_def loan_amount_of_def
        down_payment_of_def monthly_rate_of_def amortized_payment_def exact_round_def
        round_half_even_def Let_def power_divide)

text \<open>
  The claim as stated fails where the formula cannot be evaluated in floats. At a
  price of 1000 with nothing down, a rate of 1200 per cent and a term of 86 years,
  every validation passes and the loan amount is 1000, the monthly rate is 1, and
  \<open>(1 + 1)^1032\<close> is beyond the range of a float: the call raises an
  \<^verbatim>\<open>OverflowError\<close> and returns no record.
\<close>

theorem mortgage_amortization_counterexample:
  "\<not> f_le exact_arith 1000 (f_lit exact_arith 0)
   \<and> f_le exact_arith (f_lit exact_arith 0) 0 \<and> f_le exact_arith 0 (f_lit exact_arith 100)
   \<and> \<not> f_le exact_arith 1200 (f_lit exact_arith 0) \<and> (0::int) < 86
   \<and> f_lt exact_arith (f_lit exact_arith 0) (loan_amount_of exact_arith 1000 0)
   \<and> fst (calculate_mortgage exact_arith cpython_sleep 1000 0 1200 86
            \<lparr>op_state = (), trace = []\<rparr>) = Inl OverflowError_range"
  by (simp add: calculate_mortgage_decorated calculate_mortgage_body_def Let_def py_bind_def
        py_pow_def exact_arith_simps exact_pow_def binary64_bound_def loan_amount_of_def)

text \<open>
  Claim C3. For a rent and a mortgage payment that are not negative, the analyzer
  returns the record in which the vacancy and maintenance reserves are percentages
  of the rent, the monthly total is mortgage, taxes, insurance and the two reserves,
  the monthly cash flow is the rent less that total (it may be negative), the
  annual cash flow is twelve times the monthly one, and the annual net operating
  income leaves the mortgage payment out. Every number is rounded to two decimals,
  except the rent-to-price ratio, which is rounded to four. The arithmetic is
  float arithmetic, composed as the source composes it.
\<close>

theorem cashflow_formulas:
  assumes "\<not> f_lt A monthly_rent (f_lit A 0)" and "\<not> f_lt A mortgage_payment (f_lit A 0)"
    and "float_laws A"
  shows "fst (calculate_cashflow A time_sleep monthly_rent mortgage_payment monthly_taxes
           monthly_insurance vacancy_rate_pct maintenance_pct property_price
           total_cash_invested w) =
      Inr [(''monthly_rent'', PyFloat (f_round A monthly_rent 2)),
           (''expenses'', PyDict
              [(''mortgage'', PyFloat (f_round A mortgage_payment 2)),
               (''taxes'', PyFloat (f_round A monthly_taxes 2)),
               (''insurance'', PyFloat (f_round A monthly_insurance 2)),
               (''vacancy_reserve'',
                  PyFloat (f_round A (reserve_of A monthly_rent vacancy_rate_pct) 2)),
               (''maintenance_reserve'',
                  PyFloat (f_round A (reserve_of A monthly_rent maintenance_pct) 2)),
               (''total_monthly'',
                  PyFloat (f_round A
                    (total_monthly_of A mortgage_payment monthly_taxes monthly_insurance
                       (reserve_of A monthly_rent vacancy_rate_pct)
                       (reserve_of A monthly_rent maintenance_pct)) 2))]),
           (''monthly_cash_flow'',
              PyFloat (f_round A
                (f_sub A monthly_rent
                   (total_monthly_of A mortgage_payment monthly_taxes monthly_insurance
                      (reserve_of A monthly_rent vacancy_rate_pct)
                      (reserve_of A monthly_rent maintenance_pct))) 2)),
           (''annual_cash_flow'',
              PyFloat (f_round A
                (f_mul A
                   (f_sub A monthly_rent
                      (total_monthly_of A mortgage_payment monthly_taxes monthly_insurance
                         (reserve_of A monthly_rent vacancy_rate_pct)
                         (reserve_of A monthly_rent maintenance_pct)))
                   (f_lit A 12)) 2)),
           (''annual_noi'',
              PyFloat (f_round A
                (annual_noi_of A monthly_rent (reserve_of A monthly_rent vacancy_rate_pct)
                   (reserve_of A monthly_rent maintenance_pct) monthly_taxes
                   monthly_insurance) 2)),
           (''cap_rate_pct'',
              PyFloat (f_round A
                (percent_ratio_of A
                   (annual_noi_of A monthly_rent (reserve_of A monthly_rent vacancy_rate_pct)
                      (reserve_of A monthly_rent maintenance_pct) monthly_taxes
                      monthly_insurance)
                   property_price) 2)),
           (''cash_on_cash_return_pct'',
              PyFloat (f_round A
                (percent_ratio_of A
                   (f_mul A
                      (f_sub A monthly_rent
                         (total_monthly_of A mortgage_payment monthly_taxes monthly_insurance
                            (reserve_of A monthly_rent vacancy_rate_pct)
                            (reserve_of A monthly_rent maintenance_pct)))
                      (f_lit A 12))
                   total_cash_invested) 2)),
           (''rent_to_price_ratio'',
              PyFloat (f_round A (ratio_of A monthly_rent property_price) 4))]"
  using assms(1,2) float_laws_nonzero [OF assms(3)]
  by (cases "f_lt A (f_lit A 0) property_price";
      cases "f_lt A (f_lit A 0) total_cash_invested")
     (simp_all add: calculate_cashflow_decorated calculate_cashflow_body_def Let_def
        py_bind_def py_div_def reserve_of_def total_monthly_of_def annual_noi_of_def
        percent_ratio_of_def ratio_of_def)

theorem cashflow_formulas_witness:
  "\<not> f_lt exact_arith 1600 (f_lit exact_arith 0) \<and> \<not> f_lt exact_arith 1000 (f_lit exact_arith 0)
   \<and> float_laws exact_arith
   \<and> fst (calculate_cashflow exact_arith cpython_sleep 1600 1000 200 100 25 25 320000 16000
            \<lparr>op_state = (), trace = []\<rparr>) =
      Inr [(''monthly_rent'', PyFloat 1600),
           (''expenses'', PyDict
              [(''mortgage'', PyFloat 1000),
               (''taxes'', PyFloat 200),
               (''insurance'', PyFloat 100),
               (''vacancy_reserve'', PyFloat 400),
               (''maintenance_reserve'', PyFloat 400),
               (''total_monthly'', PyFloat 2100)]),
           (''monthly_cash_flow'', PyFloat (- 500)),
           (''annual_cash_flow'', PyFloat (- 6000)),
           (''annual_noi'', PyFloat 6000),
           (''cap_rate_pct'', PyFloat (188 / 100)),
           (''cash_on_cash_return_pct'', PyFloat (- (375 / 10))),
           (''rent_to_price_ratio'', PyFloat (5 / 1000))]"
  using cashflow_formulas [where A = exact_arith and time_sleep = cpython_sleep
          and monthly_rent = 1600 and mortgage_payment = 1000 and monthly_taxes = 200
          and monthly_insurance = 100 and vacancy_rate_pct = 25 and maintenance_pct = 25
          and property_price = 320000 and total_cash_invested = 16000
          and w = "\<lparr>op_state = (), trace = []\<rparr>"]
  by (simp add: float_laws_exact_arith exact_arith_simps reserve_of_def total_monthly_of_def
        annual_noi_of_def percent_ratio_of_def ratio_of_def exact_round_def round_half_even_def)

text \<open>
  Claim C4, as amended. For a wrapper with a retry budget \<open>max_retries\<close> of at least
  0, and as long as the delays \<open>base_delay \<times> 2^i\<close> can be computed and
  \<^verbatim>\<open>time.sleep\<close> accepts them: the operation is called at most \<open>max_retries + 1\<close>
  times; when the first \<open>k\<close> attempts (\<open>k\<close> within the budget) fail with a retryable
  error, the wrapper has slept \<open>base_delay \<times> 2^i\<close> after the failure of attempt \<open>i\<close>,
  for \<open>i = 0, ..., k - 1\<close> in this order, each sleep before the next call, and an
  attempt that does not fail retryably ends the run; and when all \<open>max_retries + 1\<close>
  attempts fail with a retryable error, the wrapper has slept \<open>max_retries\<close> times,
  logs an error and raises the failure of the last call, returning no value.
\<close>

theorem retry_backoff:
  assumes "0 \<le> max_retries"
  shows "count_list (trace (snd (retry_on_rate_limit A time_sleep max_retries base_delay
                                  func_name func args w))) Call
           \<le> count_list (trace w) Call + nat (max_retries + 1)
    \<and> (k \<le> nat max_retries
        \<and> (\<forall>j<k. fails_retryably func args (state_after func args j (op_state w)))
        \<and> (\<forall>j<k. delay_accepted A time_sleep base_delay j)
        \<and> \<not> fails_retryably func args (state_after func args k (op_state w)) \<longrightarrow>
        retry_on_rate_limit A time_sleep max_retries base_delay func_name func args w =
          (fst (func args (state_after func args k (op_state w))),
           w\<lparr>op_state := state_after func args (Suc k) (op_state w),
             trace := trace w @ backoff_events A func_name max_retries base_delay 0 k @ [Call]\<rparr>))
    \<and> ((\<forall>j\<le>nat max_retries. fails_retryably func args (state_after func args j (op_state w)))
        \<and> (\<forall>j<nat max_retries. delay_accepted A time_sleep base_delay j) \<longrightarrow>
        retry_on_rate_limit A time_sleep max_retries base_delay func_name func args w =
          (fst (func args (state_after func args (nat max_retries) (op_state w))),
           w\<lparr>op_state := state_after func args (Suc (nat max_retries)) (op_state w),
             trace := trace w
               @ backoff_events A func_name max_retries base_delay 0 (nat max_retries)
               @ [Call, LogError func_name max_retries]\<rparr>)
        \<and> (\<exists>e. fst (retry_on_rate_limit A time_sleep max_retries base_delay func_name
                       func args w) = Inl e
               \<and> retryable e))
    \<and> sleeps_of (backoff_events A func_name max_retries base_delay 0 k) =
        map (backoff_delay A base_delay) [0..<k]
    \<and> count_list (backoff_events A func_name max_retries base_delay 0 k) Call = k
    \<and> (f_conv A (2 ^ i) = Some c \<longrightarrow> backoff_delay A base_delay i = f_mul A base_delay c)"
proof (intro conjI impI)
  have "length [0..max_retries] = nat (max_retries + 1)"
    by simp
  then show "count_list (trace (snd (retry_on_rate_limit A time_sleep max_retries base_delay
                                  func_name func args w))) Call
           \<le> count_list (trace w) Call + nat (max_retries + 1)"
    unfolding retry_on_rate_limit_def
    using retry_loop_calls [of A time_sleep max_retries base_delay func_name func args
            "[0..max_retries]" None w]
    by simp
next
  assume h: "k \<le> nat max_retries
        \<and> (\<forall>j<k. fails_retryably func args (state_after func args j (op_state w)))
        \<and> (\<forall>j<k. delay_accepted A time_sleep base_delay j)
        \<and> \<not> fails_retryably func args (state_after func args k (op_state w))"
  then have "int 0 + int k \<le> max_retries"
    using assms by (simp add: le_nat_iff)
  with h show "retry_on_rate_limit A time_sleep max_retries base_delay func_name func args w =
          (fst (func args (state_after func args k (op_state w))),
           w\<lparr>op_state := state_after func args (Suc k) (op_state w),
             trace := trace w @ backoff_events A func_name max_retries base_delay 0 k @ [Call]\<rparr>)"
    unfolding retry_on_rate_limit_def
    using retry_loop_settles [where f = func and a = args and w = w and k = k and i = 0
            and m = max_retries and A = A and ts = time_sleep and b = base_delay
            and n = func_name and le = None]
    by simp
next
  assume h: "(\<forall>j\<le>nat max_retries. fails_retryably func args (state_after func args j (op_state w)))
        \<and> (\<forall>j<nat max_retries. delay_accepted A time_sleep base_delay j)"
  have "int 0 + int (nat max_retries) = max_retries"
    using assms by simp
  with h show run: "retry_on_rate_limit A time_sleep max_retries base_delay func_name func args w =
          (fst (func args (state_after func args (nat max_retries) (op_state w))),
           w\<lparr>op_state := state_after func args (Suc (nat max_retries)) (op_state w),
             trace := trace w
               @ backoff_events A func_name max_retries base_delay 0 (nat max_retries)
               @ [Call, LogError func_name max_retries]\<rparr>)"
    unfolding retry_on_rate_limit_def
    using retry_loop_exhausts [where f = func and a = args and w = w and k = "nat max_retries"
            and i = 0 and m = max_retries and A = A and ts = time_sleep and b = base_delay
            and n = func_name and le = None]
    by simp
  from h have "fails_retryably func args (state_after func args (nat max_retries) (op_state w))"
    by simp
  then show "\<exists>e. fst (retry_on_rate_limit A time_sleep max_retries base_delay func_name
                       func args w) = Inl e
               \<and> retryable e"
    unfolding run by (auto simp add: fails_retryably_def split: sum.splits)
next
  show "sleeps_of (backoff_events A func_name max_retries base_delay 0 k) =
        map (backoff_delay A base_delay) [0..<k]"
    by (simp add: sleeps_of_backoff_events)
next
  show "count_list (backoff_events A func_name max_retries base_delay 0 k) Call = k"
    by (rule calls_of_backoff_events)
next
  assume "f_conv A (2 ^ i) = Some c"
  then show "backoff_delay A base_delay i = f_mul A base_delay c"
    by (simp add: backoff_delay_def)
qed

theorem retry_backoff_witness:
  "(0::int) \<le> 5
   \<and> delay_accepted exact_arith cpython_sleep 2 0
   \<and> delay_accepted exact_arith cpython_sleep 2 1
   \<and> delay_accepted exact_arith cpython_sleep 2 2
   \<and> delay_accepted exact_arith cpython_sleep 2 3
   \<and> delay_accepted exact_arith cpython_sleep 2 4
   \<and> retry_on_rate_limit exact_arith cpython_sleep 5 2 ''op'' always_limited ()
        \<lparr>op_state = 0, trace = []\<rparr> =
       (Inl (PyException ''ClientError'' True ''429 RESOURCE_EXHAUSTED''),
        \<lparr>op_state = 6,
         trace = [Call, LogWarning ''op'' 1 5 2, Sleep 2,
                  Call, LogWarning ''op'' 2 5 4, Sleep 4,
                  Call, LogWarning ''op'' 3 5 8, Sleep 8,
                  Call, LogWarning ''op'' 4 5 16, Sleep 16,
                  Call, LogWarning ''op'' 5 5 32, Sleep 32,
                  Call, LogError ''op'' 5]\<rparr>)
   \<and> sleeps_of (backoff_events exact_arith ''op'' 5 2 0 5) = [2, 4, 8, 16, 32]
   \<and> retry_on_rate_limit exact_arith cpython_sleep 5 2 ''op'' limited_twice ()
        \<lparr>op_state = 0, trace = []\<rparr> =
       (Inr ''done'',
        \<lparr>op_state = 3,
         trace = [Call, LogWarning ''op'' 1 5 2, Sleep 2,
                  Call, LogWarning ''op'' 2 5 4, Sleep 4,
                  Call]\<rparr>)"
  using retry_backoff [where max_retries = 5 and base_delay = 2 and func_name = "''op''"
          and func = always_limited and args = "()" and w = "\<lparr>op_state = 0, trace = []\<rparr>"
          and k = 5 and A = exact_arith and time_sleep = cpython_sleep]
        retry_backoff [where max_retries = 5 and base_delay = 2 and func_name = "''op''"
          and func = limited_twice and args = "()" and w = "\<lparr>op_state = 0, trace = []\<rparr>"
          and k = 2 and A = exact_arith and time_sleep = cpython_sleep]
  by (simp add: always_limited_fails always_limited_state limited_twice_fails limited_twice_state
        sample_delays_accepted sample_backoff_delay
        backoff_events_def upt_rec always_limited_def limited_twice_def)

text \<open>
  Without the two conditions the claim fails. With a base delay of \<open>-1\<close> the first
  retryable failure is followed by a \<^verbatim>\<open>ValueError\<close> of \<^verbatim>\<open>time.sleep\<close>: one call, no
  sleep, no retry, and the failure of the operation is not the one raised. With a
  base delay of \<open>10^10\<close> it is an \<^verbatim>\<open>OverflowError\<close>. With a budget of \<open>-1\<close> the loop runs
  no attempt and the wrapper raises a \<^verbatim>\<open>TypeError\<close>.
\<close>

theorem retry_backoff_counterexample:
  "retry_on_rate_limit exact_arith cpython_sleep 5 (- 1) ''op'' always_limited ()
        \<lparr>op_state = 0, trace = []\<rparr> =
       (Inl (PyException ''ValueError'' True ''sleep length must be non-negative''),
        \<lparr>op_state = 1, trace = [Call, LogWarning ''op'' 1 5 (- 1)]\<rparr>)
   \<and> retry_on_rate_limit exact_arith cpython_sleep 2 (10 ^ 10) ''op'' always_limited ()
        \<lparr>op_state = 0, trace = []\<rparr> =
       (Inl (PyException ''OverflowError'' True
               ''timestamp out of range for platform time_t''),
        \<lparr>op_state = 1, trace = [Call, LogWarning ''op'' 1 2 (10 ^ 10)]\<rparr>)
   \<and> retry_on_rate_limit exact_arith cpython_sleep (- 1) 2 ''op'' always_limited ()
        \<lparr>op_state = 0, trace = []\<rparr> =
       (Inl (PyException ''TypeError'' True ''exceptions must derive from BaseException''),
        \<lparr>op_state = 0, trace = []\<rparr>)"
  by (simp add: retry_on_rate_limit_def upto_rec1 invoke_def always_limited_def rate_limit_429
        py_mul_int_def py_sleep_def log_event_def exact_arith_simps cpython_sleep_def
        binary64_bound_def)

text \<open>
  Claim C5, as amended. The handler catches instances of \<^verbatim>\<open>Exception\<close> only. A
  failure is retryable exactly when it is such an instance and its string holds a
  substring that, lower-cased, is \<open>resource_exhausted\<close> or \<open>rate limit\<close>; within the
  budget it is then followed by the sleep and the next attempt. A failure that is
  not retryable leaves the wrapper at the attempt where it occurs, whatever the
  attempt number: the same exception is raised, the call that raised it is the last
  event of the trace, and no warning, sleep or further call follows. On the first
  attempt this is one call and no delay at all.
\<close>

theorem rate_limit_classification:
  "(retryable e \<longleftrightarrow>
      exc_is_exception e
      \<and> (\<exists>ps t ss. exc_str e = ps @ t @ ss
            \<and> (py_lower t = ''resource_exhausted'' \<or> py_lower t = ''rate limit'')))
   \<and> (func args (op_state w) = (Inl e', s') \<and> \<not> retryable e' \<longrightarrow>
        retry_loop A time_sleep max_retries base_delay func_name func args (attempt # rest)
            last_exception w =
          (Inl e', w\<lparr>op_state := s', trace := trace w @ [Call]\<rparr>))
   \<and> (func args (op_state w) = (Inl e', s') \<and> retryable e' \<and> int i < max_retries
        \<and> delay_accepted A time_sleep base_delay i \<longrightarrow>
        retry_loop A time_sleep max_retries base_delay func_name func args (int i # rest)
            last_exception w =
          retry_loop A time_sleep max_retries base_delay func_name func args rest (Some e')
            (w\<lparr>op_state := s',
               trace := trace w @ [Call,
                 LogWarning func_name (int i + 1) max_retries (backoff_delay A base_delay i),
                 Sleep (backoff_delay A base_delay i)]\<rparr>))
   \<and> (0 \<le> max_retries \<and> k \<le> nat max_retries
        \<and> (\<forall>j<k. fails_retryably func args (state_after func args j (op_state w)))
        \<and> (\<forall>j<k. delay_accepted A time_sleep base_delay j)
        \<and> fst (func args (state_after func args k (op_state w))) = Inl e'
        \<and> \<not> retryable e' \<longrightarrow>
        retry_on_rate_limit A time_sleep max_retries base_delay func_name func args w =
          (Inl e',
           w\<lparr>op_state := state_after func args (Suc k) (op_state w),
             trace := trace w @ backoff_events A func_name max_retries base_delay 0 k @ [Call]\<rparr>))"
proof (intro conjI impI)
  show "retryable e \<longleftrightarrow>
      exc_is_exception e
      \<and> (\<exists>ps t ss. exc_str e = ps @ t @ ss
            \<and> (py_lower t = ''resource_exhausted'' \<or> py_lower t = ''rate limit''))"
    unfolding retryable_def is_rate_limit_iff ..
next
  assume "func args (op_state w) = (Inl e', s') \<and> \<not> retryable e'"
  then show "retry_loop A time_sleep max_retries base_delay func_name func args (attempt # rest)
            last_exception w =
          (Inl e', w\<lparr>op_state := s', trace := trace w @ [Call]\<rparr>)"
    by (auto simp add: invoke_def retryable_def)
next
  assume h: "func args (op_state w) = (Inl e', s') \<and> retryable e' \<and> int i < max_retries
        \<and> delay_accepted A time_sleep base_delay i"
  then have call: "func args (op_state w) = (Inl e', s')"
    and caught: "exc_is_exception e'" and rl: "is_rate_limit e'"
    and lt: "int i < max_retries" and ok: "delay_accepted A time_sleep base_delay i"
    by (simp_all add: retryable_def)
  show "retry_loop A time_sleep max_retries base_delay func_name func args (int i # rest)
            last_exception w =
          retry_loop A time_sleep max_retries base_delay func_name func args rest (Some e')
            (w\<lparr>op_state := s',
               trace := trace w @ [Call,
                 LogWarning func_name (int i + 1) max_retries (backoff_delay A base_delay i),
                 Sleep (backoff_delay A base_delay i)]\<rparr>)"
    by (rule retry_step [where f = func and a = args and w = w and e = e' and s' = s',
          OF call caught rl lt ok])
next
  assume h: "0 \<le> max_retries \<and> k \<le> nat max_retries
        \<and> (\<forall>j<k. fails_retryably func args (state_after func args j (op_state w)))
        \<and> (\<forall>j<k. delay_accepted A time_sleep base_delay j)
        \<and> fst (func args (state_after func args k (op_state w))) = Inl e'
        \<and> \<not> retryable e'"
  then have "0 \<le> max_retries" and "k \<le> nat max_retries"
    by simp_all
  then have le: "int 0 + int k \<le> max_retries"
    by linarith
  from h have stop: "\<not> fails_retryably func args (state_after func args k (op_state w))"
    by (simp add: fails_retryably_def)
  from h le stop show "retry_on_rate_limit A time_sleep max_retries base_delay func_name func args w =
          (Inl e',
           w\<lparr>op_state := state_after func args (Suc k) (op_state w),
             trace := trace w @ backoff_events A func_name max_retries base_delay 0 k @ [Call]\<rparr>)"
    unfolding retry_on_rate_limit_def
    using retry_loop_settles [where f = func and a = args and w = w and k = k and i = 0
            and m = max_retries and A = A and ts = time_sleep and b = base_delay
            and n = func_name and le = None]
    by simp
qed

theorem rate_limit_classification_witness:
  "retryable (PyException ''ClientError'' True ''429 Resource_Exhausted: quota'')
   \<and> retryable (PyException ''HTTPError'' True ''Rate Limit exceeded'')
   \<and> \<not> retryable (PyException ''ValueError'' True ''invalid price'')
   \<and> retry_on_rate_limit exact_arith cpython_sleep 5 2 ''op'' broken ()
        \<lparr>op_state = 0, trace = []\<rparr> =
       (Inl (PyException ''ValueError'' True ''invalid price''), \<lparr>op_state = 1, trace = [Call]\<rparr>)
   \<and> retry_loop exact_arith cpython_sleep 5 2 ''op'' broken () [3, 4, 5] None
        \<lparr>op_state = 0, trace = []\<rparr> =
       (Inl (PyException ''ValueError'' True ''invalid price''), \<lparr>op_state = 1, trace = [Call]\<rparr>)"
proof -
  note cls = rate_limit_classification [THEN conjunct1]
  note loop = rate_limit_classification [THEN conjunct2, THEN conjunct1, rule_format]
  note top = rate_limit_classification [THEN conjunct2, THEN conjunct2, THEN conjunct2,
    rule_format]
  have "exc_is_exception (PyException ''ClientError'' True ''429 Resource_Exhausted: quota'')
        \<and> exc_str (PyException ''ClientError'' True ''429 Resource_Exhausted: quota'') =
          ''429 '' @ ''Resource_Exhausted'' @ '': quota''
        \<and> (py_lower ''Resource_Exhausted'' = ''resource_exhausted''
           \<or> py_lower ''Resource_Exhausted'' = ''rate limit'')"
    by (simp add: py_lower_def lower_char_def)
  then have a: "retryable (PyException ''ClientError'' True ''429 Resource_Exhausted: quota'')"
    unfolding cls by blast
  have "exc_is_exception (PyException ''HTTPError'' True ''Rate Limit exceeded'')
        \<and> exc_str (PyException ''HTTPError'' True ''Rate Limit exceeded'') =
          [] @ ''Rate Limit'' @ '' exceeded''
        \<and> (py_lower ''Rate Limit'' = ''resource_exhausted''
           \<or> py_lower ''Rate Limit'' = ''rate limit'')"
    by (simp add: py_lower_def lower_char_def)
  then have b: "retryable (PyException ''HTTPError'' True ''Rate Limit exceeded'')"
    unfolding cls by blast
  have c: "\<not> retryable (PyException ''ValueError'' True ''invalid price'')"
    by (simp add: retryable_def not_rate_limit_ValueError)
  have d: "retry_on_rate_limit exact_arith cpython_sleep 5 2 ''op'' broken ()
          \<lparr>op_state = 0, trace = []\<rparr> =
       (Inl (PyException ''ValueError'' True ''invalid price''), \<lparr>op_state = 1, trace = [Call]\<rparr>)"
    using top [where k = 0 and func = broken and args = "()"
            and w = "\<lparr>op_state = 0, trace = []\<rparr>" and A = exact_arith
            and time_sleep = cpython_sleep and max_retries = 5 and base_delay = 2
            and func_name = "''op''" and e' = "PyException ''ValueError'' True ''invalid price''"]
    by (simp add: c broken_def state_after_def next_state_def backoff_events_0)
  have e: "retry_loop exact_arith cpython_sleep 5 2 ''op'' broken () [3, 4, 5] None
          \<lparr>op_state = 0, trace = []\<rparr> =
       (Inl (PyException ''ValueError'' True ''invalid price''), \<lparr>op_state = 1, trace = [Call]\<rparr>)"
    using loop [where func = broken and args = "()"
            and w = "\<lparr>op_state = 0, trace = []\<rparr>" and A = exact_arith
            and time_sleep = cpython_sleep and max_retries = 5 and base_delay = 2
            and func_name = "''op''" and e' = "PyException ''ValueError'' True ''invalid price''"
            and s' = 1 and attempt = 3 and rest = "[4, 5]" and last_exception = None]
    by (simp add: c broken_def)
  from a b c d e show ?thesis by (intro conjI)
qed

text \<open>
  The string alone does not decide. A \<^verbatim>\<open>SystemExit\<close> whose message is
  \<^verbatim>\<open>Rate limit exceeded\<close> has the rate-limit signature and is not retried: the
  handler does not catch it, and the wrapper is left after one call, with no sleep.
\<close>

theorem rate_limit_classification_counterexample:
  "is_rate_limit (PyException ''SystemExit'' False ''Rate limit exceeded'')
   \<and> retry_on_rate_limit exact_arith cpython_sleep 5 2 ''op'' interrupted ()
        \<lparr>op_state = 0, trace = []\<rparr> =
       (Inl (PyException ''SystemExit'' False ''Rate limit exceeded''),
        \<lparr>op_state = 1, trace = [Call]\<rparr>)"
  by (simp add: rate_limit_SystemExit retry_on_rate_limit_def upto_rec1 invoke_def
        interrupted_def)

text \<open>
  Claim C6. \<open>calculate_mortgage\<close> checks price, down-payment percentage, interest
  rate and term in this order, and the first check that fails decides the result:
  the error record with the message of that check, returned and not raised. When
  all four pass, the result is no error record. \<open>calculate_cashflow\<close> returns its
  error record exactly when the rent or the mortgage payment is negative; no value
  of the six other inputs produces one.
\<close>

theorem validation_error_records:
  "(f_le A price (f_lit A 0) \<longrightarrow>
      fst (calculate_mortgage A time_sleep price down_payment_pct interest_rate term_years w) =
        Inr [(''error'', PyStr ''Price must be positive.'')])
   \<and> (\<not> f_le A price (f_lit A 0)
        \<and> \<not> (f_le A (f_lit A 0) down_payment_pct \<and> f_le A down_payment_pct (f_lit A 100)) \<longrightarrow>
      fst (calculate_mortgage A time_sleep price down_payment_pct interest_rate term_years w) =
        Inr [(''error'', PyStr ''Down payment percentage must be between 0 and 100.'')])
   \<and> (\<not> f_le A price (f_lit A 0)
        \<and> f_le A (f_lit A 0) down_payment_pct \<and> f_le A down_payment_pct (f_lit A 100)
        \<and> f_le A interest_rate (f_lit A 0) \<longrightarrow>
      fst (calculate_mortgage A time_sleep price down_payment_pct interest_rate term_years w) =
        Inr [(''error'', PyStr ''Interest rate must be positive.'')])
   \<and> (\<not> f_le A price (f_lit A 0)
        \<and> f_le A (f_lit A 0) down_payment_pct \<and> f_le A down_payment_pct (f_lit A 100)
        \<and> \<not> f_le A interest_rate (f_lit A 0) \<and> term_years \<le> 0 \<longrightarrow>
      fst (calculate_mortgage A time_sleep price down_payment_pct interest_rate term_years w) =
        Inr [(''error'', PyStr ''Loan term must be positive.'')])
   \<and> (\<not> f_le A price (f_lit A 0)
        \<and> f_le A (f_lit A 0) down_payment_pct \<and> f_le A down_payment_pct (f_lit A 100)
        \<and> \<not> f_le A interest_rate (f_lit A 0) \<and> 0 < term_years \<longrightarrow>
      no_error_record
        (fst (calculate_mortgage A time_sleep price down_payment_pct interest_rate term_years w)))
   \<and> (f_lt A monthly_rent (f_lit A 0) \<or> f_lt A mortgage_payment (f_lit A 0) \<longrightarrow>
      fst (calculate_cashflow A time_sleep monthly_rent mortgage_payment monthly_taxes
             monthly_insurance vacancy_rate_pct maintenance_pct property_price
             total_cash_invested w') =
        Inr [(''error'', PyStr ''Rent and mortgage must be non-negative.'')])
   \<and> (\<not> f_lt A monthly_rent (f_lit A 0) \<and> \<not> f_lt A mortgage_payment (f_lit A 0) \<longrightarrow>
      no_error_record
        (fst (calculate_cashflow A time_sleep monthly_rent mortgage_payment monthly_taxes
                monthly_insurance vacancy_rate_pct maintenance_pct property_price
                total_cash_invested w')))
   \<and> (\<not> f_lt A monthly_rent (f_lit A 0) \<and> \<not> f_lt A mortgage_payment (f_lit A 0)
        \<and> float_laws A \<longrightarrow>
      (\<exists>d. fst (calculate_cashflow A time_sleep monthly_rent mortgage_payment monthly_taxes
                  monthly_insurance vacancy_rate_pct maintenance_pct property_price
                  total_cash_invested w') = Inr d
           \<and> ''error'' \<notin> set (map fst d)))"
proof (intro conjI impI)
  assume v: "\<not> f_le A price (f_lit A 0)
        \<and> f_le A (f_lit A 0) down_payment_pct \<and> f_le A down_payment_pct (f_lit A 100)
        \<and> \<not> f_le A interest_rate (f_lit A 0) \<and> 0 < term_years"
  then show "no_error_record
        (fst (calculate_mortgage A time_sleep price down_payment_pct interest_rate term_years w))"
    by (auto simp add: calculate_mortgage_decorated calculate_mortgage_body_def Let_def
          no_error_record_def py_bind_def split: sum.splits)
next
  assume "\<not> f_lt A monthly_rent (f_lit A 0) \<and> \<not> f_lt A mortgage_payment (f_lit A 0)"
  then show "no_error_record
        (fst (calculate_cashflow A time_sleep monthly_rent mortgage_payment monthly_taxes
                monthly_insurance vacancy_rate_pct maintenance_pct property_price
                total_cash_invested w'))"
    by (auto simp add: calculate_cashflow_decorated calculate_cashflow_body_def Let_def
          no_error_record_def py_bind_def split: sum.splits)
next
  assume "\<not> f_lt A monthly_rent (f_lit A 0) \<and> \<not> f_lt A mortgage_payment (f_lit A 0)
        \<and> float_laws A"
  then have "\<exists>d. calculate_cashflow_body A monthly_rent mortgage_payment monthly_taxes
                monthly_insurance vacancy_rate_pct maintenance_pct property_price
                total_cash_invested = Inr d
            \<and> map fst d = [''monthly_rent'', ''expenses'', ''monthly_cash_flow'',
                  ''annual_cash_flow'', ''annual_noi'', ''cap_rate_pct'',
                  ''cash_on_cash_return_pct'', ''rent_to_price_ratio'']"
    by (intro cashflow_success_keys) simp_all
  then show "\<exists>d. fst (calculate_cashflow A time_sleep monthly_rent mortgage_payment monthly_taxes
                  monthly_insurance vacancy_rate_pct maintenance_pct property_price
                  total_cash_invested w') = Inr d
           \<and> ''error'' \<notin> set (map fst d)"
    by (auto simp add: calculate_cashflow_decorated)
qed (auto simp add: calculate_mortgage_decorated calculate_mortgage_body_def
       calculate_cashflow_decorated calculate_cashflow_body_def)

theorem validation_error_records_witness:
  "fst (calculate_mortgage exact_arith cpython_sleep 0 20 5 30 \<lparr>op_state = (), trace = []\<rparr>) =
     Inr [(''error'', PyStr ''Price must be positive.'')]
   \<and> fst (calculate_mortgage exact_arith cpython_sleep 0 101 0 0 \<lparr>op_state = (), trace = []\<rparr>) =
     Inr [(''error'', PyStr ''Price must be positive.'')]
   \<and> fst (calculate_mortgage exact_arith cpython_sleep 1000 101 0 0 \<lparr>op_state = (), trace = []\<rparr>) =
     Inr [(''error'', PyStr ''Down payment percentage must be between 0 and 100.'')]
   \<and> fst (calculate_mortgage exact_arith cpython_sleep 1000 20 0 0 \<lparr>op_state = (), trace = []\<rparr>) =
     Inr [(''error'', PyStr ''Interest rate must be positive.'')]
   \<and> fst (calculate_mortgage exact_arith cpython_sleep 1000 20 5 0 \<lparr>op_state = (), trace = []\<rparr>) =
     Inr [(''error'', PyStr ''Loan term must be positive.'')]
   \<and> no_error_record
       (fst (calculate_mortgage exact_arith cpython_sleep 1000 20 5 30 \<lparr>op_state = (), trace = []\<rparr>))
   \<and> fst (calculate_cashflow exact_arith cpython_sleep (-1) 500 100 50 5 5 0 0
            \<lparr>op_state = (), trace = []\<rparr>) =
     Inr [(''error'', PyStr ''Rent and mortgage must be non-negative.'')]
   \<and> fst (calculate_cashflow exact_arith cpython_sleep 1000 (-1) 100 50 5 5 0 0
            \<lparr>op_state = (), trace = []\<rparr>) =
     Inr [(''error'', PyStr ''Rent and mortgage must be non-negative.'')]
   \<and> no_error_record
       (fst (calculate_cashflow exact_arith cpython_sleep 1000 500 (-100) (-50) (-5) 500 (-1) (-1)
               \<lparr>op_state = (), trace = []\<rparr>))
   \<and> (\<exists>d. fst (calculate_cashflow exact_arith cpython_sleep 1000 500 (-100) (-50) (-5) 500 (-1) (-1)
                \<lparr>op_state = (), trace = []\<rparr>) = Inr d
          \<and> ''error'' \<notin> set (map fst d))"
  using validation_error_records [where A = exact_arith and time_sleep = cpython_sleep
          and price = 0 and down_payment_pct = 20 and interest_rate = 5 and term_years = 30
          and w = "\<lparr>op_state = (), trace = []\<rparr>" and monthly_rent = "-1"
          and mortgage_payment = 500 and monthly_taxes = 100 and monthly_insurance = 50
          and vacancy_rate_pct = 5 and maintenance_pct = 5 and property_price = 0
          and total_cash_invested = 0 and w' = "\<lparr>op_state = (), trace = []\<rparr>"]
        validation_error_records [where A = exact_arith and time_sleep = cpython_sleep
          and price = 0 and down_payment_pct = 101 and interest_rate = 0 and term_years = 0
          and w = "\<lparr>op_state = (), trace = []\<rparr>" and monthly_rent = 1000
          and mortgage_payment = "-1" and monthly_taxes = 100 and monthly_insurance = 50
          and vacancy_rate_pct = 5 and maintenance_pct = 5 and property_price = 0
          and total_cash_invested = 0 and w' = "\<lparr>op_state = (), trace = []\<rparr>"]
        validation_error_records [where A = exact_arith and time_sleep = cpython_sleep
          and price = 1000 and down_payment_pct = 101 and interest_rate = 0 and term_years = 0
          and w = "\<lparr>op_state = (), trace = []\<rparr>" and monthly_rent = 1000
          and mortgage_payment = 500 and monthly_taxes = "-100" and monthly_insurance = "-50"
          and vacancy_rate_pct = "-5" and maintenance_pct = 500 and property_price = "-1"
          and total_cash_invested = "-1" and w' = "\<lparr>op_state = (), trace = []\<rparr>"]
        validation_error_records [where A = exact_arith and time_sleep = cpython_sleep
          and price = 1000 and down_payment_pct = 20 and interest_rate = 0 and term_years = 0
          and w = "\<lparr>op_state = (), trace = []\<rparr>" and monthly_rent = 1000
          and mortgage_payment = 500 and monthly_taxes = "-100" and monthly_insurance = "-50"
          and vacancy_rate_pct = "-5" and maintenance_pct = 500 and property_price = "-1"
          and total_cash_invested = "-1" and w' = "\<lparr>op_state = (), trace = []\<rparr>"]
        validation_error_records [where A = exact_arith and time_sleep = cpython_sleep
          and price = 1000 and down_payment_pct = 20 and interest_rate = 5 and term_years = 0
          and w = "\<lparr>op_state = (), trace = []\<rparr>" and monthly_rent = 1000
          and mortgage_payment = 500 and monthly_taxes = "-100" and monthly_insurance = "-50"
          and vacancy_rate_pct = "-5" and maintenance_pct = 500 and property_price = "-1"
          and total_cash_invested = "-1" and w' = "\<lparr>op_state = (), trace = []\<rparr>"]
        validation_error_records [where A = exact_arith and time_sleep = cpython_sleep
          and price = 1000 and down_payment_pct = 20 and interest_rate = 5 and term_years = 30
          and w = "\<lparr>op_state = (), trace = []\<rparr>" and monthly_rent = 1000
          and mortgage_payment = 500 and monthly_taxes = "-100" and monthly_insurance = "-50"
          and vacancy_rate_pct = "-5" and maintenance_pct = 500 and property_price = "-1"
          and total_cash_invested = "-1" and w' = "\<lparr>op_state = (), trace = []\<rparr>"]
  by (simp add: exact_arith_simps float_laws_exact_arith)

text \<open>
  Claim C7. On a valid mortgage input with a down payment of 100 per cent and a
  price that is a finite number (\<^verbatim>\<open>price * 1.0\<close> is the price and
  \<^verbatim>\<open>price - price\<close> is \<^verbatim>\<open>0.0\<close>), the loan amount is zero, and whenever the loan
  amount is zero the calculator returns the record of its early return, without
  evaluating the amortization formula: monthly payment 0, total interest 0, and a
  total cost equal to the price, both being the price rounded to cents as every
  monetary output is.
\<close>

theorem mortgage_full_down_payment:
  assumes "\<not> f_le A price (f_lit A 0)"
    and "f_le A (f_lit A 0) down_payment_pct" and "f_le A down_payment_pct (f_lit A 100)"
    and "\<not> f_le A interest_rate (f_lit A 0)" and "0 < term_years"
  shows "(down_payment_pct = f_lit A 100 \<and> float_laws A
            \<and> f_mul A price (f_lit A 1) = price
            \<and> f_eq A (f_sub A price price) (f_lit A 0) \<longrightarrow>
          f_eq A (loan_amount_of A price down_payment_pct) (f_lit A 0)
          \<and> fst (calculate_mortgage A time_sleep price down_payment_pct interest_rate
                   term_years w) =
            Inr [(''price'', PyFloat (f_round A price 2)),
                 (''down_payment_pct'', PyFloat (f_lit A 100)),
                 (''down_payment_amount'', PyFloat (f_round A price 2)),
                 (''loan_amount'', PyFloat (f_lit A 0)),
                 (''monthly_payment'', PyFloat (f_lit A 0)),
                 (''total_interest'', PyFloat (f_lit A 0)),
                 (''total_cost'', PyFloat (f_round A price 2))])
    \<and> (f_eq A (loan_amount_of A price down_payment_pct) (f_lit A 0) \<longrightarrow>
          field_of (fst (calculate_mortgage A time_sleep price down_payment_pct interest_rate
                           term_years w)) ''monthly_payment'' = Some (PyFloat (f_lit A 0))
          \<and> field_of (fst (calculate_mortgage A time_sleep price down_payment_pct interest_rate
                           term_years w)) ''total_interest'' = Some (PyFloat (f_lit A 0))
          \<and> field_of (fst (calculate_mortgage A time_sleep price down_payment_pct interest_rate
                           term_years w)) ''total_cost'' = Some (PyFloat (f_round A price 2))
          \<and> field_of (fst (calculate_mortgage A time_sleep price down_payment_pct interest_rate
                           term_years w)) ''total_cost'' =
            field_of (fst (calculate_mortgage A time_sleep price down_payment_pct interest_rate
                           term_years w)) ''price'')"
proof (intro conjI impI)
  assume h: "down_payment_pct = f_lit A 100 \<and> float_laws A
            \<and> f_mul A price (f_lit A 1) = price
            \<and> f_eq A (f_sub A price price) (f_lit A 0)"
  then have one: "f_div A (f_lit A 100) (f_lit A 100) = f_lit A 1"
    and unit: "f_mul A price (f_lit A 1) = price"
    by (simp_all add: float_laws_def)
  from h one unit show zero: "f_eq A (loan_amount_of A price down_payment_pct) (f_lit A 0)"
    by (simp add: loan_amount_of_def)
  from h one unit show "fst (calculate_mortgage A time_sleep price down_payment_pct interest_rate
                   term_years w) =
            Inr [(''price'', PyFloat (f_round A price 2)),
                 (''down_payment_pct'', PyFloat (f_lit A 100)),
                 (''down_payment_amount'', PyFloat (f_round A price 2)),
                 (''loan_amount'', PyFloat (f_lit A 0)),
                 (''monthly_payment'', PyFloat (f_lit A 0)),
                 (''total_interest'', PyFloat (f_lit A 0)),
                 (''total_cost'', PyFloat (f_round A price 2))]"
    using mortgage_zero_loan_record [OF assms zero]
    by (simp add: calculate_mortgage_decorated)
qed (simp_all add: calculate_mortgage_decorated mortgage_zero_loan_record [OF assms] field_of_def)

theorem mortgage_full_down_payment_witness:
  "\<not> f_le exact_arith 250000 (f_lit exact_arith 0)
   \<and> float_laws exact_arith
   \<and> f_eq exact_arith (loan_amount_of exact_arith 250000 100) (f_lit exact_arith 0)
   \<and> fst (calculate_mortgage exact_arith cpython_sleep 250000 100 7 15
            \<lparr>op_state = (), trace = []\<rparr>) =
        Inr [(''price'', PyFloat 250000),
             (''down_payment_pct'', PyFloat 100),
             (''down_payment_amount'', PyFloat 250000),
             (''loan_amount'', PyFloat 0),
             (''monthly_payment'', PyFloat 0),
             (''total_interest'', PyFloat 0),
             (''total_cost'', PyFloat 250000)]"
  using mortgage_full_down_payment [where A = exact_arith and price = 250000
          and down_payment_pct = 100 and interest_rate = 7 and term_years = 15
          and time_sleep = cpython_sleep and w = "\<lparr>op_state = (), trace = []\<rparr>"]
  by (simp add: exact_arith_simps float_laws_exact_arith exact_round_def round_half_even_def)

text \<open>
  Claim C8. On a valid cash-flow input, a property price of 0 gives a cap rate of
  0.0 and a rent-to-price ratio of 0.0 whatever the other inputs are, and a total
  cash invested of 0 gives a cash-on-cash return of 0.0.
\<close>

theorem cashflow_sentinels:
  assumes "\<not> f_lt A monthly_rent (f_lit A 0)" and "\<not> f_lt A mortgage_payment (f_lit A 0)"
    and "float_laws A"
  shows "(property_price = f_lit A 0 \<longrightarrow>
            field_of (fst (calculate_cashflow A time_sleep monthly_rent mortgage_payment
                monthly_taxes monthly_insurance vacancy_rate_pct maintenance_pct property_price
                total_cash_invested w)) ''cap_rate_pct'' = Some (PyFloat (f_lit A 0))
          \<and> field_of (fst (calculate_cashflow A time_sleep monthly_rent mortgage_payment
                monthly_taxes monthly_insurance vacancy_rate_pct maintenance_pct property_price
                total_cash_invested w)) ''rent_to_price_ratio'' = Some (PyFloat (f_lit A 0)))
       \<and> (total_cash_invested = f_lit A 0 \<longrightarrow>
            field_of (fst (calculate_cashflow A time_sleep monthly_rent mortgage_payment
                monthly_taxes monthly_insurance vacancy_rate_pct maintenance_pct property_price
                total_cash_invested w)) ''cash_on_cash_return_pct'' = Some (PyFloat (f_lit A 0)))"
proof -
  from assms(3) have zero: "\<not> f_lt A (f_lit A 0) (f_lit A 0)"
    by (simp add: float_laws_def)
  show ?thesis
    using zero
    by (auto simp add: calculate_cashflow_decorated
          cashflow_price_sentinels [OF assms] cashflow_invested_sentinel [OF assms])
qed

theorem cashflow_sentinels_witness:
  "\<not> f_lt exact_arith 2900 (f_lit exact_arith 0) \<and> \<not> f_lt exact_arith 2312 (f_lit exact_arith 0)
   \<and> float_laws exact_arith
   \<and> field_of (fst (calculate_cashflow exact_arith cpython_sleep 2900 2312 280 145 25 25 0 0
                      \<lparr>op_state = (), trace = []\<rparr>))
        ''cap_rate_pct'' = Some (PyFloat 0)
   \<and> field_of (fst (calculate_cashflow exact_arith cpython_sleep 2900 2312 280 145 25 25 0 0
                      \<lparr>op_state = (), trace = []\<rparr>))
        ''rent_to_price_ratio'' = Some (PyFloat 0)
   \<and> field_of (fst (calculate_cashflow exact_arith cpython_sleep 2900 2312 280 145 25 25 0 0
                      \<lparr>op_state = (), trace = []\<rparr>))
        ''cash_on_cash_return_pct'' = Some (PyFloat 0)"
  using cashflow_sentinels [where A = exact_arith and time_sleep = cpython_sleep
          and monthly_rent = 2900 and mortgage_payment = 2312 and monthly_taxes = 280
          and monthly_insurance = 145 and vacancy_rate_pct = 25 and maintenance_pct = 25
          and property_price = 0 and total_cash_invested = 0
          and w = "\<lparr>op_state = (), trace = []\<rparr>"]
  by (simp add: exact_arith_simps float_laws_exact_arith)

text \<open>
  Claim C9. The retry decoration on the two calculators is inert. For every input
  and every state of the world, the exported \<open>calculate_mortgage\<close> and
  \<open>calculate_cashflow\<close> return or raise what their undecorated bodies return or
  raise, and the only thing the wrapper adds to the trace is one call of the body:
  no warning, no sleep, no second call, also when the body returns a validation
  error record.
\<close>

theorem retry_decoration_inert:
  "calculate_mortgage A time_sleep price down_payment_pct interest_rate term_years w =
     (calculate_mortgage_body A price down_payment_pct interest_rate term_years,
      w\<lparr>trace := trace w @ [Call]\<rparr>)
   \<and> calculate_cashflow A time_sleep monthly_rent mortgage_payment monthly_taxes
       monthly_insurance vacancy_rate_pct maintenance_pct property_price total_cash_invested w =
     (calculate_cashflow_body A monthly_rent mortgage_payment monthly_taxes monthly_insurance
        vacancy_rate_pct maintenance_pct property_price total_cash_invested,
      w\<lparr>trace := trace w @ [Call]\<rparr>)"
  by (simp only: calculate_mortgage_decorated calculate_cashflow_decorated)

theorem retry_decoration_inert_witness:
  "calculate_mortgage exact_arith cpython_sleep (-1) 20 5 30 \<lparr>op_state = (), trace = []\<rparr> =
     (Inr [(''error'', PyStr ''Price must be positive.'')], \<lparr>op_state = (), trace = [Call]\<rparr>)
   \<and> calculate_cashflow exact_arith cpython_sleep 1000 (-1) 0 0 5 5 0 0
        \<lparr>op_state = (), trace = []\<rparr> =
     (Inr [(''error'', PyStr ''Rent and mortgage must be non-negative.'')],
      \<lparr>op_state = (), trace = [Call]\<rparr>)"
  using retry_decoration_inert [where A = exact_arith and time_sleep = cpython_sleep
          and price = "-1" and down_payment_pct = 20 and interest_rate = 5 and term_years = 30
          and w = "\<lparr>op_state = (), trace = []\<rparr>" and monthly_rent = 1000
          and mortgage_payment = "-1" and monthly_taxes = 0 and monthly_insurance = 0
          and vacancy_rate_pct = 5 and maintenance_pct = 5 and property_price = 0
          and total_cash_invested = 0]
  by (simp add: calculate_mortgage_body_def calculate_cashflow_body_def exact_arith_simps)

text \<open>
  Claim C10. \<open>calculate_cashflow\<close> is total on the inputs it does not validate: for
  a rent and a mortgage payment that are not negative and any taxes, insurance,
  percentages, price and cash invested, negative ones included, it returns a
  success record with its eight keys after one call of the body, and nothing is
  raised. For a property price at or below 0 the cap rate and the rent-to-price
  ratio are the sentinel 0.0, and for a total cash invested at or below 0 the
  cash-on-cash return is.
\<close>

theorem cashflow_total:
  assumes "\<not> f_lt A monthly_rent (f_lit A 0)" and "\<not> f_lt A mortgage_payment (f_lit A 0)"
    and "float_laws A"
  shows "(\<exists>d. calculate_cashflow A time_sleep monthly_rent mortgage_payment monthly_taxes
                monthly_insurance vacancy_rate_pct maintenance_pct property_price
                total_cash_invested w = (Inr d, w\<lparr>trace := trace w @ [Call]\<rparr>)
            \<and> map fst d = [''monthly_rent'', ''expenses'', ''monthly_cash_flow'',
                  ''annual_cash_flow'', ''annual_noi'', ''cap_rate_pct'',
                  ''cash_on_cash_return_pct'', ''rent_to_price_ratio''])
       \<and> (f_le A property_price (f_lit A 0) \<longrightarrow>
            field_of (fst (calculate_cashflow A time_sleep monthly_rent mortgage_payment
                monthly_taxes monthly_insurance vacancy_rate_pct maintenance_pct property_price
                total_cash_invested w)) ''cap_rate_pct'' = Some (PyFloat (f_lit A 0))
          \<and> field_of (fst (calculate_cashflow A time_sleep monthly_rent mortgage_payment
                monthly_taxes monthly_insurance vacancy_rate_pct maintenance_pct property_price
                total_cash_invested w)) ''rent_to_price_ratio'' = Some (PyFloat (f_lit A 0)))
       \<and> (f_le A total_cash_invested (f_lit A 0) \<longrightarrow>
            field_of (fst (calculate_cashflow A time_sleep monthly_rent mortgage_payment
                monthly_taxes monthly_insurance vacancy_rate_pct maintenance_pct property_price
                total_cash_invested w)) ''cash_on_cash_return_pct'' = Some (PyFloat (f_lit A 0)))"
proof (intro conjI impI)
  show "\<exists>d. calculate_cashflow A time_sleep monthly_rent mortgage_payment monthly_taxes
                monthly_insurance vacancy_rate_pct maintenance_pct property_price
                total_cash_invested w = (Inr d, w\<lparr>trace := trace w @ [Call]\<rparr>)
            \<and> map fst d = [''monthly_rent'', ''expenses'', ''monthly_cash_flow'',
                  ''annual_cash_flow'', ''annual_noi'', ''cap_rate_pct'',
                  ''cash_on_cash_return_pct'', ''rent_to_price_ratio'']"
    using cashflow_success_keys [OF assms]
    by (simp add: calculate_cashflow_decorated)
next
  assume "f_le A property_price (f_lit A 0)"
  then have guard: "\<not> f_lt A (f_lit A 0) property_price"
    by (rule float_laws_le_zero [OF assms(3)])
  show "field_of (fst (calculate_cashflow A time_sleep monthly_rent mortgage_payment
                monthly_taxes monthly_insurance vacancy_rate_pct maintenance_pct property_price
                total_cash_invested w)) ''cap_rate_pct'' = Some (PyFloat (f_lit A 0))"
    by (simp add: calculate_cashflow_decorated cashflow_price_sentinels [OF assms guard])
  show "field_of (fst (calculate_cashflow A time_sleep monthly_rent mortgage_payment
                monthly_taxes monthly_insurance vacancy_rate_pct maintenance_pct property_price
                total_cash_invested w)) ''rent_to_price_ratio'' = Some (PyFloat (f_lit A 0))"
    by (simp add: calculate_cashflow_decorated cashflow_price_sentinels [OF assms guard])
next
  assume "f_le A total_cash_invested (f_lit A 0)"
  then have guard: "\<not> f_lt A (f_lit A 0) total_cash_invested"
    by (rule float_laws_le_zero [OF assms(3)])
  show "field_of (fst (calculate_cashflow A time_sleep monthly_rent mortgage_payment
                monthly_taxes monthly_insurance vacancy_rate_pct maintenance_pct property_price
                total_cash_invested w)) ''cash_on_cash_return_pct'' = Some (PyFloat (f_lit A 0))"
    by (simp add: calculate_cashflow_decorated cashflow_invested_sentinel [OF assms guard])
qed

theorem cashflow_total_witness:
  "\<not> f_lt exact_arith 1000 (f_lit exact_arith 0) \<and> \<not> f_lt exact_arith 0 (f_lit exact_arith 0)
   \<and> float_laws exact_arith
   \<and> f_le exact_arith (- 365000) (f_lit exact_arith 0)
   \<and> f_le exact_arith (- 1) (f_lit exact_arith 0)
   \<and> calculate_cashflow exact_arith cpython_sleep 1000 0 (- 50) (- 20) (- 25) 250 (- 365000) (- 1)
        \<lparr>op_state = (), trace = []\<rparr> =
      (Inr [(''monthly_rent'', PyFloat 1000),
            (''expenses'', PyDict
               [(''mortgage'', PyFloat 0),
                (''taxes'', PyFloat (- 50)),
                (''insurance'', PyFloat (- 20)),
                (''vacancy_reserve'', PyFloat (- 250)),
                (''maintenance_reserve'', PyFloat 2500),
                (''total_monthly'', PyFloat 2180)]),
            (''monthly_cash_flow'', PyFloat (- 1180)),
            (''annual_cash_flow'', PyFloat (- 14160)),
            (''annual_noi'', PyFloat (- 14160)),
            (''cap_rate_pct'', PyFloat 0),
            (''cash_on_cash_return_pct'', PyFloat 0),
            (''rent_to_price_ratio'', PyFloat 0)],
       \<lparr>op_state = (), trace = [Call]\<rparr>)"
  using cashflow_total [where A = exact_arith and time_sleep = cpython_sleep
          and monthly_rent = 1000 and mortgage_payment = 0 and monthly_taxes = "- 50"
          and monthly_insurance = "- 20" and vacancy_rate_pct = "- 25" and maintenance_pct = 250
          and property_price = "- 365000" and total_cash_invested = "- 1"
          and w = "\<lparr>op_state = (), trace = []\<rparr>"]
  by (simp add: float_laws_exact_arith calculate_cashflow_decorated calculate_cashflow_body_def
        Let_def py_div_def py_bind_def exact_arith_simps exact_round_def round_half_even_def)

end
